theory Spec2Isabelle
  imports Complex_Main "HOL-Library.Log_Nat" "HOL-Library.Product_Lexorder"
begin

section \<open>Python and SQLite values\<close>

text \<open>
  The adaptive progress and roadmap engine lives in \<^verbatim>\<open>database_manager.py\<close> (class
  DatabaseManager) and \<^verbatim>\<open>roadmap_generator.py\<close> (class RoadmapGenerator). The SQLite
  database is modelled as a record of tables, each table a list of rows in rowid order;
  every method that writes takes the database and returns the new one.

  Conventions of the embedding:
  \<^item> Python \<^verbatim>\<open>int\<close> is \<^typ>\<open>int\<close>; \<^verbatim>\<open>//\<close> is \<open>div\<close> (both round towards minus
    infinity).
  \<^item> Python floats are modelled as rationals (\<^typ>\<open>rat\<close>). A mastery level is the decimal
    value that was stored; its comparisons with the thresholds 0.3, 0.4, 0.6, 0.7 and 0.8
    are the exact ones, and the means of the allocation engine (\<open>avg_mastery\<close>) are exact
    means. In the analytics and adaptation step, where a computed float is compared with a
    threshold to decide a directive (the completion rates, their average, and the mean
    mastery compared with 0.7), every float operation is rounded as IEEE-754 binary64
    rounds it, see \<open>fl_round\<close> below. The two places where the source rounds a float to an
    integer (\<^verbatim>\<open>round(a * 100 / total)\<close> and \<^verbatim>\<open>int(hours * 0.7)\<close>) are modelled
    bit-exactly, see \<open>py_round_div\<close> and \<open>py_int_mul\<close> below.
  \<^item> An exception is a value of \<open>py_error\<close>; a function that can raise returns
    \<open>py_error + 'a\<close>.
  \<^item> \<^verbatim>\<open>datetime.now()\<close> and \<^verbatim>\<open>uuid.uuid4()\<close> are inputs: a \<open>clock\<close> record and a
    function giving the k-th identifier drawn during a call.
  \<^item> Columns that the engine itself always writes with a value (mastery_level, attempts,
    status, study_hours_per_day, exam_type, ...) are modelled as non-NULL;
    \<^verbatim>\<open>users.target_year\<close>, which is nullable and reaches a \<^verbatim>\<open>datetime(...)\<close>
    constructor, is an \<open>int option\<close>.
\<close>

datatype py_error =
  ZeroDivisionError | ValueError | TypeError | OverflowError | KeyError | IntegrityError

datatype sqlval = SqlNull | SqlInt int | SqlReal rat | SqlText string

text \<open>Python truthiness of a fetched column value, as used by \<^verbatim>\<open>if result[6]:\<close>.\<close>

fun truthy :: "sqlval \<Rightarrow> bool" where
  "truthy SqlNull = False"
| "truthy (SqlInt i) = (i \<noteq> 0)"
| "truthy (SqlReal r) = (r \<noteq> 0)"
| "truthy (SqlText s) = (s \<noteq> [])"

text \<open>
  \<^verbatim>\<open>round(n / d)\<close> for Python ints \<open>n\<close> and \<open>d > 0\<close>: true division gives the double
  nearest to the quotient, and \<^verbatim>\<open>round\<close> rounds that double to the nearest integer, ties
  to the even one. A quotient that is not exactly half-way between two integers is at least
  \<open>1 / (2 * d)\<close> away from half-way, which is far more than the error of the division for
  the magnitudes that occur here (\<open>n \<le> 5000\<close>, \<open>d \<le> 150\<close>), and a half-way quotient is a
  double itself; so the result is the exact quotient rounded half to even.
\<close>

definition py_round_div :: "int \<Rightarrow> int \<Rightarrow> int" where
  "py_round_div n d =
     (let q = n div d; r = n mod d
      in if 2 * r < d then q
         else if 2 * r > d then q + 1
         else if even q then q else q + 1)"

text \<open>
  IEEE-754 binary64 arithmetic for \<^verbatim>\<open>int(h * c)\<close> with \<open>h\<close> a Python int and \<open>c\<close> a float
  literal. A positive double is \<open>m * 2 ^ e\<close> with \<open>m < 2 ^ 53\<close>; \<open>round53 n\<close> rounds the
  natural number \<open>n\<close> to 53 significant bits, ties to even, so that a dyadic rational
  \<open>n / 2 ^ k\<close> rounds to the double \<open>round53 n / 2 ^ k\<close> (all values involved are in the
  normal range). \<^verbatim>\<open>h * c\<close> first converts \<open>h\<close> to a double, then rounds the exact
  product; \<^verbatim>\<open>int\<close> truncates towards zero.
\<close>

definition round53 :: "int \<Rightarrow> int" where
  "round53 n =
     (let bits = bitlen n in
      if bits \<le> 53 then n
      else let shift = nat (bits - 53);
               q = n div 2 ^ shift;
               r = n mod 2 ^ shift;
               half = 2 ^ (shift - 1)
           in (if r > half \<or> (r = half \<and> odd q) then q + 1 else q) * 2 ^ shift)"

text \<open>The literal \<^verbatim>\<open>0.7\<close> is the double \<open>3152519739159347 / 2 ^ 52\<close> and the literal
  \<^verbatim>\<open>0.2\<close> is the double \<open>3602879701896397 / 2 ^ 54\<close>.\<close>

definition py_int_mul :: "int \<Rightarrow> int \<Rightarrow> nat \<Rightarrow> int" where
  "py_int_mul h m k =
     (let a = round53 \<bar>h\<bar>;
          t = round53 (a * m) div 2 ^ k
      in if h < 0 then - t else t)"

definition int_mul_0_7 :: "int \<Rightarrow> int" where
  "int_mul_0_7 h = py_int_mul h 3152519739159347 52"

definition int_mul_0_2 :: "int \<Rightarrow> int" where
  "int_mul_0_2 h = py_int_mul h 3602879701896397 54"

text \<open>
  \<open>fl_round x\<close> is the double nearest to the rational \<open>x\<close>, ties to the even significand
  (the result of a float operation whose exact result is \<open>x\<close>, and the value of a decimal
  literal \<open>x\<close>). With \<open>\<bar>x\<bar> = p / q\<close>, the exponent \<open>e\<close> is chosen so that
  \<open>\<bar>x\<bar> / 2 ^ e\<close> lies between \<open>2 ^ 52\<close> and \<open>2 ^ 54\<close>; the quotient is rounded to an
  integer significand, after one more halving when it has 54 bits. Overflow and subnormal
  numbers do not occur for the magnitudes of this program (rates up to 100, masteries up
  to 1, counts of rows) and are not modelled.
\<close>

definition fl_round :: "rat \<Rightarrow> rat" where
  "fl_round x =
     (if x = 0 then 0
      else let (p, q) = quotient_of \<bar>x\<bar>;
               e = bitlen p - bitlen q - 53;
               n = (if e < 0 then p * 2 ^ nat (- e) else p);
               d = (if e < 0 then q else q * 2 ^ nat e);
               big = (n div d \<ge> 2 ^ 53);
               m = (if big then py_round_div n (2 * d) else py_round_div n d);
               e' = (if big then e + 1 else e)
           in sgn x * (if e' < 0 then of_int m / of_int (2 ^ nat (- e'))
                       else of_int (m * 2 ^ nat e')))"

text \<open>\<^verbatim>\<open>sum(xs)\<close> over floats, from the int 0 and rounding each addition, and
  \<^verbatim>\<open>sum(xs) / len(xs)\<close>, one more rounded division.\<close>

definition py_fsum :: "rat list \<Rightarrow> rat" where
  "py_fsum xs = foldl (\<lambda>acc x. fl_round (acc + x)) 0 xs"

definition float_mean :: "rat list \<Rightarrow> rat" where
  "float_mean xs = fl_round (py_fsum xs / of_nat (length xs))"

section \<open>The database (database\_manager.py)\<close>

record user_row =
  u_id :: string
  u_name :: string
  u_exam_type :: string
  u_target_year :: "int option"

text \<open>Of \<^verbatim>\<open>user_profiles\<close> only the columns the roadmap engine reads are kept.\<close>

record profile_row =
  up_user_id :: string
  up_study_hours_per_day :: int

record subject_row =
  s_id :: string
  s_name :: string
  s_exam_type :: string
  s_weightage :: int
  s_total_chapters :: int

record topic_row =
  t_id :: string
  t_subject_id :: string
  t_name :: string
  t_chapter_number :: int
  t_difficulty_level :: int
  t_importance :: int
  t_estimated_hours :: int

record progress_row =
  p_id :: string
  p_user_id :: string
  p_topic_id :: string
  p_mastery_level :: rat
  p_time_spent :: int
  p_last_studied :: int
  p_attempts :: int
  p_correct_answers :: int
  p_status :: string

record roadmap_row =
  r_id :: string
  r_user_id :: string
  r_week_number :: int
  r_year :: int
  r_status :: string
  r_created_at :: string
  r_updated_at :: string

record roadmap_item_row =
  ri_id :: string
  ri_roadmap_id :: string
  ri_topic_id :: string
  ri_day_of_week :: int
  ri_study_hours :: int
  ri_priority :: int
  ri_status :: string

record database =
  users :: "user_row list"
  user_profiles :: "profile_row list"
  subjects :: "subject_row list"
  topics :: "topic_row list"
  user_progress :: "progress_row list"
  roadmaps :: "roadmap_row list"
  roadmap_items :: "roadmap_item_row list"

text \<open>
  The clock: the fields of \<^verbatim>\<open>datetime.now()\<close> that the engine reads. \<open>week_at k\<close> is
  \<^verbatim>\<open>(now + timedelta(weeks=k)).isocalendar()[1]\<close> paired with the calendar year of that
  date, or \<open>None\<close> when the date arithmetic overflows. \<open>now_text\<close> is SQLite's
  \<^verbatim>\<open>CURRENT_TIMESTAMP\<close>.
\<close>

record clock =
  now_year :: int
  now_month :: int
  now_week :: int
  now_stamp :: int
  now_text :: string
  week_at :: "int \<Rightarrow> (int \<times> int) option"

text \<open>The dictionary \<^verbatim>\<open>get_user_profile\<close> returns: the joined row of users and
  user\_profiles.\<close>

record user_profile =
  profile_id :: string
  profile_name :: string
  exam_type :: string
  target_year :: "int option"
  user_id :: string
  study_hours_per_day :: int

definition get_user_profile :: "database \<Rightarrow> string \<Rightarrow> user_profile option" where
  "get_user_profile db uid =
     (case [(u, up). u \<leftarrow> users db, up \<leftarrow> user_profiles db,
                     u_id u = up_user_id up, u_id u = uid] of
        [] \<Rightarrow> None
      | (u, up) # _ \<Rightarrow>
          Some \<lparr> profile_id = u_id u, profile_name = u_name u, exam_type = u_exam_type u,
                 target_year = u_target_year u, user_id = up_user_id up,
                 study_hours_per_day = up_study_hours_per_day up \<rparr>)"

definition get_subjects_for_exam :: "database \<Rightarrow> string \<Rightarrow> subject_row list" where
  "get_subjects_for_exam db et =
     filter (\<lambda>s. s_exam_type s = et \<or> s_exam_type s = ''BOTH'') (subjects db)"

definition get_topics_for_subject :: "database \<Rightarrow> string \<Rightarrow> topic_row list" where
  "get_topics_for_subject db sid =
     sort_key t_chapter_number (filter (\<lambda>t. t_subject_id t = sid) (topics db))"

text \<open>
  The status rule of \<^verbatim>\<open>update_progress\<close> (the if/elif chain at the head of the method).
\<close>

definition progress_status :: "rat \<Rightarrow> int \<Rightarrow> string" where
  "progress_status mastery_level attempts =
     (if mastery_level \<ge> 8/10 then ''completed''
      else if mastery_level \<ge> 4/10 then ''in_progress''
      else if attempts > 3 \<and> mastery_level < 3/10 then ''struggling''
      else ''in_progress'')"

text \<open>
  \<^verbatim>\<open>INSERT OR REPLACE\<close>: rows that conflict with the new one on the primary key
  \<^verbatim>\<open>id\<close> or on \<^verbatim>\<open>UNIQUE(user_id, topic_id)\<close> are deleted, then the new row is added.
\<close>

definition insert_or_replace_progress :: "progress_row \<Rightarrow> progress_row list \<Rightarrow> progress_row list" where
  "insert_or_replace_progress new rows =
     filter (\<lambda>r. \<not> (p_id r = p_id new \<or>
                      (p_user_id r = p_user_id new \<and> p_topic_id r = p_topic_id new))) rows
     @ [new]"

definition update_progress ::
  "clock \<Rightarrow> database \<Rightarrow> string \<Rightarrow> string \<Rightarrow> rat \<Rightarrow> int \<Rightarrow> int \<Rightarrow> int \<Rightarrow> database" where
  "update_progress clk db uid tid mastery_level time_spent attempts correct_answers =
     db \<lparr> user_progress :=
            insert_or_replace_progress
              \<lparr> p_id = uid @ ''_'' @ tid, p_user_id = uid, p_topic_id = tid,
                p_mastery_level = mastery_level, p_time_spent = time_spent,
                p_last_studied = now_stamp clk, p_attempts = attempts,
                p_correct_answers = correct_answers,
                p_status = progress_status mastery_level attempts \<rparr>
              (user_progress db) \<rparr>"

text \<open>The dictionary rows of \<^verbatim>\<open>get_user_progress\<close>: user\_progress joined with topics
  and subjects, most recently studied first.\<close>

record progress =
  pr_topic_id :: string
  pr_mastery_level :: rat
  pr_attempts :: int
  pr_status :: string
  pr_topic_name :: string
  pr_subject_id :: string
  pr_subject_name :: string

definition get_user_progress :: "database \<Rightarrow> string \<Rightarrow> progress list" where
  "get_user_progress db uid =
     [\<lparr> pr_topic_id = p_topic_id p, pr_mastery_level = p_mastery_level p,
        pr_attempts = p_attempts p, pr_status = p_status p, pr_topic_name = t_name t,
        pr_subject_id = t_subject_id t, pr_subject_name = s_name s \<rparr>.
        p \<leftarrow> sort_key (\<lambda>p. - p_last_studied p) (user_progress db),
        p_user_id p = uid,
        t \<leftarrow> topics db, t_id t = p_topic_id p,
        s \<leftarrow> subjects db, s_id s = t_subject_id t]"

section \<open>Dictionaries\<close>

text \<open>
  A Python \<^verbatim>\<open>dict\<close> whose iteration order matters is an association list with distinct
  keys in insertion order; \<open>dict_set\<close> is \<^verbatim>\<open>d[k] = v\<close> (an existing key keeps its place).
\<close>

fun dict_set :: "('k \<times> 'v) list \<Rightarrow> 'k \<Rightarrow> 'v \<Rightarrow> ('k \<times> 'v) list" where
  "dict_set [] k v = [(k, v)]"
| "dict_set ((k', v') # kvs) k v =
     (if k' = k then (k, v) # kvs else (k', v') # dict_set kvs k v)"

section \<open>The allocation engine (roadmap\_generator.py)\<close>

record strategy =
  phase :: string
  months_remaining :: int
  focus_areas :: "string list"
  subject_allocation :: "(string \<times> int) list"
  subject_performance :: "(string \<times> rat) list"
  priority_subjects :: "string list"
  study_intensity :: string

text \<open>\<^verbatim>\<open>sum(p['mastery_level'] for p in ps) / len(ps)\<close>, evaluated only for a non-empty
  list.\<close>

definition avg_mastery :: "progress list \<Rightarrow> rat" where
  "avg_mastery ps = sum_list (map pr_mastery_level ps) / of_nat (length ps)"

text \<open>
  \<^verbatim>\<open>datetime(target_year, exam_month, 1)\<close> and the months until then. The constructor
  raises TypeError for \<^verbatim>\<open>None\<close>, OverflowError for a year that does not fit a C int and
  ValueError for a year outside 1..9999.
\<close>

definition months_until_exam :: "clock \<Rightarrow> user_profile \<Rightarrow> py_error + int" where
  "months_until_exam clk user_profile =
     (let exam_month = (if exam_type user_profile = ''JEE'' then 4 else 5) in
      case target_year user_profile of
        None \<Rightarrow> Inl TypeError
      | Some y \<Rightarrow>
          if y < - (2 ^ 31) \<or> y \<ge> 2 ^ 31 then Inl OverflowError
          else if y < 1 \<or> y > 9999 then Inl ValueError
          else Inr (max 1 ((y - now_year clk) * 12 + exam_month - now_month clk)))"

definition progress_phase :: "progress list \<Rightarrow> string \<times> string list" where
  "progress_phase progress =
     (if progress = [] then (''foundation'', [''basic_concepts'', ''ncert_completion''])
      else if avg_mastery progress < 3/10
        then (''foundation'', [''concept_building'', ''basic_practice''])
      else if avg_mastery progress < 6/10
        then (''intermediate'', [''problem_solving'', ''previous_year_questions''])
      else (''advanced'', [''mock_tests'', ''advanced_problems'', ''revision'']))"

definition subject_mean :: "progress list \<Rightarrow> string \<Rightarrow> rat" where
  "subject_mean progress nm =
     (let subject_progress = filter (\<lambda>p. pr_subject_name p = nm) progress
      in if subject_progress \<noteq> [] then avg_mastery subject_progress else 0)"

definition subject_performance_of :: "progress list \<Rightarrow> subject_row list \<Rightarrow> (string \<times> rat) list" where
  "subject_performance_of progress subjs =
     foldl (\<lambda>d s. dict_set d (s_name s) (subject_mean progress (s_name s))) [] subjs"

definition base_allocation :: "string \<Rightarrow> (string \<times> int) list" where
  "base_allocation et =
     (if et = ''JEE'' then [(''Physics'', 33), (''Chemistry'', 33), (''Mathematics'', 34)]
      else [(''Physics'', 25), (''Chemistry'', 25), (''Biology'', 50)])"

definition adjust_percent :: "rat option \<Rightarrow> int \<Rightarrow> int" where
  "adjust_percent perf base_percent =
     (case perf of
        Some performance \<Rightarrow>
          if performance < 3/10 then min 50 (base_percent + 10)
          else if performance > 7/10 then max 20 (base_percent - 5)
          else base_percent
      | None \<Rightarrow> base_percent)"

definition adjusted_allocation :: "(string \<times> rat) list \<Rightarrow> (string \<times> int) list \<Rightarrow> (string \<times> int) list" where
  "adjusted_allocation perf base =
     map (\<lambda>(subject, base_percent). (subject, adjust_percent (map_of perf subject) base_percent)) base"

text \<open>
  The normalisation loop. \<open>total\<close> is read once before the loop; it is at least 60, every
  adjusted percentage being at least 20, so the division never raises.
\<close>

definition normalize_allocation :: "(string \<times> int) list \<Rightarrow> (string \<times> int) list" where
  "normalize_allocation adjusted =
     (let total = sum_list (map snd adjusted)
      in map (\<lambda>(subject, v). (subject, py_round_div (v * 100) total)) adjusted)"

definition get_priority_subjects :: "(string \<times> rat) list \<Rightarrow> string list" where
  "get_priority_subjects perf = map fst (sort_key snd perf)"

definition calculate_study_intensity :: "int \<Rightarrow> string \<Rightarrow> string" where
  "calculate_study_intensity months ph =
     (if months \<le> 2 then ''high''
      else if months \<le> 6 then ''medium_high''
      else if months \<le> 12 then ''medium''
      else ''low_medium'')"

definition create_roadmap_strategy ::
  "clock \<Rightarrow> user_profile \<Rightarrow> progress list \<Rightarrow> subject_row list \<Rightarrow> py_error + strategy" where
  "create_roadmap_strategy clk user_profile progress subjs =
     (case months_until_exam clk user_profile of
        Inl e \<Rightarrow> Inl e
      | Inr months \<Rightarrow>
          let (ph, focus) = progress_phase progress;
              perf = subject_performance_of progress subjs;
              alloc = normalize_allocation
                        (adjusted_allocation perf (base_allocation (exam_type user_profile)))
          in Inr \<lparr> phase = ph, months_remaining = months, focus_areas = focus,
                   subject_allocation = alloc, subject_performance = perf,
                   priority_subjects = get_priority_subjects perf,
                   study_intensity = calculate_study_intensity months ph \<rparr>)"

section \<open>The roadmap builder (roadmap\_generator.py)\<close>

text \<open>
  An activity dictionary; the keys \<^verbatim>\<open>topic\<close>, \<^verbatim>\<open>topic_id\<close> and \<^verbatim>\<open>priority\<close> are
  absent from some activities, hence options.
\<close>

record activity =
  a_type :: string
  a_subject :: string
  a_topic :: "string option"
  a_topic_id :: "string option"
  a_duration :: int
  a_priority :: "string option"

record day_plan =
  dp_day :: int
  dp_focus :: string
  dp_activities :: "activity list"

type_synonym weekly_plan = "(string \<times> day_plan) list"

text \<open>
  \<^verbatim>\<open>select_topics_for_day\<close>. \<open>topic_progress\<close> is a dict comprehension, so the last
  progress row of a topic wins. \<^verbatim>\<open>sort(key=..., reverse=True)\<close> is stable, which is a
  stable ascending sort on the negated key. When the filter is empty the source sorts the
  caller's list in place (\<^verbatim>\<open>suitable_topics = topics\<close>); a stable sort commutes with
  the filter, so later calls on the sorted list select the same topics and the aliasing is
  not modelled.
\<close>

definition topic_mastery :: "progress list \<Rightarrow> topic_row \<Rightarrow> rat" where
  "topic_mastery progress t =
     (case map_of (rev (map (\<lambda>p. (pr_topic_id p, p)) progress)) (t_id t) of
        Some p \<Rightarrow> pr_mastery_level p
      | None \<Rightarrow> 0)"

definition phase_suitable :: "string \<Rightarrow> rat \<Rightarrow> bool" where
  "phase_suitable ph mastery_level =
     (if ph = ''foundation'' then mastery_level < 4/10
      else if ph = ''intermediate'' then 3/10 \<le> mastery_level \<and> mastery_level < 7/10
      else mastery_level \<ge> 6/10)"

definition select_topics_for_day :: "database \<Rightarrow> topic_row list \<Rightarrow> string \<Rightarrow> string \<Rightarrow> topic_row list" where
  "select_topics_for_day db tps uid ph =
     (if tps = [] then []
      else let progress = get_user_progress db uid;
               suitable = filter (\<lambda>t. phase_suitable ph (topic_mastery progress t)) tps;
               suitable_topics = (if suitable = [] then tps else suitable)
           in take 3 (sort_key (\<lambda>t. (- t_importance t, - t_difficulty_level t)) suitable_topics))"

definition day_name :: "int \<Rightarrow> string" where
  "day_name day =
     [''Monday'', ''Tuesday'', ''Wednesday'', ''Thursday'', ''Friday'', ''Saturday'', ''Sunday'']
       ! nat (day - 1)"

text \<open>\<^verbatim>\<open>all_topics\<close>: subject name to topic list; a later subject of the same name
  overwrites an earlier one.\<close>

definition all_topics_of :: "database \<Rightarrow> subject_row list \<Rightarrow> string \<Rightarrow> topic_row list option" where
  "all_topics_of db subjs =
     map_of (rev (map (\<lambda>s. (s_name s, get_topics_for_subject db (s_id s))) subjs))"

definition sunday_plan :: "int \<Rightarrow> day_plan" where
  "sunday_plan hours =
     \<lparr> dp_day = 7, dp_focus = ''revision_and_assessment'',
       dp_activities =
         [\<lparr> a_type = ''revision'', a_subject = ''Mixed'', a_topic = None, a_topic_id = None,
            a_duration = hours div 2, a_priority = None \<rparr>,
          \<lparr> a_type = ''mock_test'', a_subject = ''Mixed'', a_topic = None, a_topic_id = None,
            a_duration = hours div 2, a_priority = None \<rparr>] \<rparr>"

text \<open>A regular study day; \<open>prio\<close> is the non-empty list \<^verbatim>\<open>strategy['priority_subjects']\<close>.\<close>

definition regular_day_plan ::
  "database \<Rightarrow> (string \<Rightarrow> topic_row list option) \<Rightarrow> strategy \<Rightarrow> user_profile \<Rightarrow> int \<Rightarrow> day_plan" where
  "regular_day_plan db all_topics strat user_profile day =
     (let prio = priority_subjects strat;
          hours = study_hours_per_day user_profile;
          primary_subject = prio ! nat (day mod int (length prio));
          secondary_subject = prio ! nat ((day + 1) mod int (length prio));
          primary_topics =
            select_topics_for_day db
              (case all_topics primary_subject of Some ts \<Rightarrow> ts | None \<Rightarrow> [])
              (user_id user_profile) (phase strat);
          primary_hours = int_mul_0_7 hours;
          primary_acts =
            (case primary_topics of
               [] \<Rightarrow> []
             | t # _ \<Rightarrow>
                 [\<lparr> a_type = ''concept_study'', a_subject = primary_subject,
                    a_topic = Some (t_name t), a_topic_id = Some (t_id t),
                    a_duration = primary_hours, a_priority = Some ''high'' \<rparr>]);
          secondary_hours = int_mul_0_2 hours;
          secondary_acts =
            (case all_topics secondary_subject of
               None \<Rightarrow> []
             | Some ts \<Rightarrow>
                 (case select_topics_for_day db ts (user_id user_profile) (phase strat) of
                    [] \<Rightarrow> []
                  | t # _ \<Rightarrow>
                      [\<lparr> a_type = ''practice'', a_subject = secondary_subject,
                         a_topic = Some (t_name t), a_topic_id = Some (t_id t),
                         a_duration = secondary_hours, a_priority = Some ''medium'' \<rparr>]));
          revision_hours = hours - primary_hours - secondary_hours
      in \<lparr> dp_day = day, dp_focus = primary_subject,
           dp_activities =
             primary_acts @ secondary_acts @
             [\<lparr> a_type = ''revision'', a_subject = ''Mixed'', a_topic = None, a_topic_id = None,
                a_duration = revision_hours, a_priority = Some ''low'' \<rparr>] \<rparr>)"

text \<open>
  \<^verbatim>\<open>generate_weekly_plan\<close>. The dictionary \<^verbatim>\<open>subject_hours\<close> that the method computes
  first is never read and is left out. With no priority subject, \<^verbatim>\<open>day % len(...)\<close>
  raises ZeroDivisionError on Monday.
\<close>

definition generate_weekly_plan :: "database \<Rightarrow> strategy \<Rightarrow> user_profile \<Rightarrow> py_error + weekly_plan" where
  "generate_weekly_plan db strat user_profile =
     (let all_topics = all_topics_of db (get_subjects_for_exam db (exam_type user_profile))
      in if priority_subjects strat = [] then Inl ZeroDivisionError
         else Inr (map (\<lambda>day. (day_name day,
                                if day = 7 then sunday_plan (study_hours_per_day user_profile)
                                else regular_day_plan db all_topics strat user_profile day))
                       [1, 2, 3, 4, 5, 6, 7]))"

text \<open>\<^verbatim>\<open>all_topics.get(subject, [])\<close> for the dictionary \<^verbatim>\<open>all_topics\<close> that
  \<^verbatim>\<open>generate_weekly_plan\<close> builds for the user's exam track: the topics the catalogue holds
  for a subject, empty when the subject is not one of the track.\<close>

definition topics_of_subject :: "database \<Rightarrow> user_profile \<Rightarrow> string \<Rightarrow> topic_row list" where
  "topics_of_subject db user_profile subject =
     (case all_topics_of db (get_subjects_for_exam db (exam_type user_profile)) subject of
        Some ts \<Rightarrow> ts
      | None \<Rightarrow> [])"

section \<open>Persistence (roadmap\_generator.py)\<close>

text \<open>The activities \<^verbatim>\<open>save_roadmap\<close> persists: those whose \<^verbatim>\<open>topic_id\<close> is present and
  truthy, with the day of their plan.\<close>

definition plan_items :: "weekly_plan \<Rightarrow> (int \<times> string \<times> activity) list" where
  "plan_items plan =
     concat (map (\<lambda>(nm, dp).
        concat (map (\<lambda>a. case a_topic_id a of
                            None \<Rightarrow> []
                          | Some tid \<Rightarrow> if tid = [] then [] else [(dp_day dp, tid, a)])
                    (dp_activities dp))) plan)"

definition priority_code :: "string \<Rightarrow> int" where
  "priority_code p = (if p = ''high'' then 1 else if p = ''medium'' then 2 else 3)"

text \<open>
  The insert loop; \<open>k\<close> counts the identifiers drawn so far. A missing \<^verbatim>\<open>priority\<close> key
  raises KeyError, an identifier that is already a primary key raises IntegrityError.
\<close>

fun insert_items ::
  "(nat \<Rightarrow> string) \<Rightarrow> nat \<Rightarrow> string \<Rightarrow> (int \<times> string \<times> activity) list \<Rightarrow>
   roadmap_item_row list \<Rightarrow> py_error + roadmap_item_row list" where
  "insert_items uuid4 k rid [] rows = Inr rows"
| "insert_items uuid4 k rid ((day, tid, a) # rest) rows =
     (case a_priority a of
        None \<Rightarrow> Inl KeyError
      | Some pr \<Rightarrow>
          if uuid4 k \<in> set (map ri_id rows) then Inl IntegrityError
          else insert_items uuid4 (Suc k) rid rest
                 (rows @ [\<lparr> ri_id = uuid4 k, ri_roadmap_id = rid, ri_topic_id = tid,
                            ri_day_of_week = day, ri_study_hours = a_duration a,
                            ri_priority = priority_code pr, ri_status = ''pending'' \<rparr>]))"

text \<open>
  \<^verbatim>\<open>save_roadmap\<close>: nothing is committed when an insert raises, so the database is
  returned only on success.
\<close>

definition save_roadmap ::
  "clock \<Rightarrow> (nat \<Rightarrow> string) \<Rightarrow> database \<Rightarrow> string \<Rightarrow> int \<Rightarrow> int \<Rightarrow> weekly_plan \<Rightarrow>
   py_error + (string \<times> database)" where
  "save_roadmap clk uuid4 db uid week yr plan =
     (let roadmap_id = uuid4 0 in
      if roadmap_id \<in> set (map r_id (roadmaps db)) then Inl IntegrityError
      else case insert_items uuid4 1 roadmap_id (plan_items plan) (roadmap_items db) of
             Inl e \<Rightarrow> Inl e
           | Inr rows \<Rightarrow>
               Inr (roadmap_id,
                    db \<lparr> roadmaps := roadmaps db @
                            [\<lparr> r_id = roadmap_id, r_user_id = uid, r_week_number = week,
                               r_year = yr, r_status = ''active'',
                               r_created_at = now_text clk, r_updated_at = now_text clk \<rparr>],
                         roadmap_items := rows \<rparr>))"

record generated_roadmap =
  g_roadmap_id :: string
  g_week_number :: int
  g_year :: int
  g_exam_type :: string
  g_study_hours_per_day :: int
  g_weekly_plan :: weekly_plan
  g_strategy :: strategy

datatype roadmap_response = ErrorResponse string | Generated generated_roadmap

text \<open>
  \<^verbatim>\<open>generate_weekly_roadmap\<close> returns its value (or the exception it raised) together
  with the database it leaves behind.
\<close>

definition generate_weekly_roadmap ::
  "clock \<Rightarrow> (nat \<Rightarrow> string) \<Rightarrow> database \<Rightarrow> string \<Rightarrow> int \<Rightarrow>
   (py_error + roadmap_response) \<times> database" where
  "generate_weekly_roadmap clk uuid4 db uid week_offset =
     (case get_user_profile db uid of
        None \<Rightarrow> (Inr (ErrorResponse ''User not found''), db)
      | Some user_profile \<Rightarrow>
          (case week_at clk week_offset of
             None \<Rightarrow> (Inl OverflowError, db)
           | Some (week_number, yr) \<Rightarrow>
               let progress = get_user_progress db uid;
                   subjs = get_subjects_for_exam db (exam_type user_profile)
               in case create_roadmap_strategy clk user_profile progress subjs of
                    Inl e \<Rightarrow> (Inl e, db)
                  | Inr roadmap_strategy \<Rightarrow>
                      (case generate_weekly_plan db roadmap_strategy user_profile of
                         Inl e \<Rightarrow> (Inl e, db)
                       | Inr plan \<Rightarrow>
                           (case save_roadmap clk uuid4 db uid week_number yr plan of
                              Inl e \<Rightarrow> (Inl e, db)
                            | Inr (roadmap_id, db') \<Rightarrow>
                                (Inr (Generated
                                   \<lparr> g_roadmap_id = roadmap_id, g_week_number = week_number,
                                     g_year = yr, g_exam_type = exam_type user_profile,
                                     g_study_hours_per_day = study_hours_per_day user_profile,
                                     g_weekly_plan = plan, g_strategy = roadmap_strategy \<rparr>),
                                 db')))))"

text \<open>The items that one day of a plan contributes to \<^verbatim>\<open>save_roadmap\<close>: its activities
  that carry a topic id.\<close>

definition day_items :: "day_plan \<Rightarrow> (int \<times> string \<times> activity) list" where
  "day_items dp = concat (map (\<lambda>a. case a_topic_id a of
                            None \<Rightarrow> []
                          | Some tid \<Rightarrow> if tid = [] then [] else [(dp_day dp, tid, a)])
                    (dp_activities dp))"

section \<open>Reading a roadmap back (roadmap\_generator.py)\<close>

text \<open>
  \<^verbatim>\<open>get_roadmap\<close> selects \<^verbatim>\<open>r.*, ri.*, t.name, s.name\<close> over three LEFT JOINs and reads
  the fetched tuples by position. A fetched tuple is modelled as the list of its 16
  columns: 7 of roadmaps (id, user\_id, week\_number, year, status, created\_at,
  updated\_at), 7 of roadmap\_items (id, roadmap\_id, topic\_id, day\_of\_week,
  study\_hours, priority, status), then the topic name and the subject name. A missing
  right-hand side of a LEFT JOIN gives NULL columns.
\<close>

definition roadmap_cols :: "roadmap_row \<Rightarrow> sqlval list" where
  "roadmap_cols r =
     [SqlText (r_id r), SqlText (r_user_id r), SqlInt (r_week_number r), SqlInt (r_year r),
      SqlText (r_status r), SqlText (r_created_at r), SqlText (r_updated_at r)]"

definition item_cols :: "roadmap_item_row \<Rightarrow> sqlval list" where
  "item_cols i =
     [SqlText (ri_id i), SqlText (ri_roadmap_id i), SqlText (ri_topic_id i),
      SqlInt (ri_day_of_week i), SqlInt (ri_study_hours i), SqlInt (ri_priority i),
      SqlText (ri_status i)]"

definition subject_cols :: "database \<Rightarrow> topic_row \<Rightarrow> sqlval list list" where
  "subject_cols db t =
     (let ss = filter (\<lambda>s. s_id s = t_subject_id t) (subjects db)
      in if ss = [] then [[SqlText (t_name t), SqlNull]]
         else map (\<lambda>s. [SqlText (t_name t), SqlText (s_name s)]) ss)"

definition topic_cols :: "database \<Rightarrow> roadmap_item_row \<Rightarrow> sqlval list list" where
  "topic_cols db i =
     (let ts = filter (\<lambda>t. t_id t = ri_topic_id i) (topics db)
      in if ts = [] then [[SqlNull, SqlNull]] else concat (map (subject_cols db) ts))"

definition roadmap_join_rows :: "database \<Rightarrow> string \<Rightarrow> int \<Rightarrow> int \<Rightarrow> sqlval list list" where
  "roadmap_join_rows db uid week yr =
     concat (map (\<lambda>r.
        let its = filter (\<lambda>i. ri_roadmap_id i = r_id r) (roadmap_items db)
        in if its = [] then [roadmap_cols r @ replicate 9 SqlNull]
           else concat (map (\<lambda>i. map (\<lambda>ts. roadmap_cols r @ item_cols i @ ts) (topic_cols db i)) its))
       (filter (\<lambda>r. r_user_id r = uid \<and> r_week_number r = week \<and> r_year r = yr) (roadmaps db)))"

record roadmap_item_dict =
  i_id :: sqlval
  i_topic_id :: sqlval
  i_day_of_week :: sqlval
  i_study_hours :: sqlval
  i_priority :: sqlval
  i_status :: sqlval
  i_topic_name :: sqlval
  i_subject_name :: sqlval

record roadmap_dict =
  rd_id :: sqlval
  rd_user_id :: sqlval
  rd_week_number :: sqlval
  rd_year :: sqlval
  rd_status :: sqlval
  rd_items :: "roadmap_item_dict list"

definition item_of_result :: "sqlval list \<Rightarrow> roadmap_item_dict" where
  "item_of_result result =
     \<lparr> i_id = result ! 6, i_topic_id = result ! 8, i_day_of_week = result ! 9,
       i_study_hours = result ! 10, i_priority = result ! 11, i_status = result ! 12,
       i_topic_name = result ! 13, i_subject_name = result ! 14 \<rparr>"

definition get_roadmap :: "clock \<Rightarrow> database \<Rightarrow> string \<Rightarrow> int \<Rightarrow> py_error + roadmap_dict option" where
  "get_roadmap clk db uid week_offset =
     (case week_at clk week_offset of
        None \<Rightarrow> Inl OverflowError
      | Some (week_number, yr) \<Rightarrow>
          (case roadmap_join_rows db uid week_number yr of
             [] \<Rightarrow> Inr None
           | first # rest \<Rightarrow>
               Inr (Some \<lparr> rd_id = first ! 0, rd_user_id = first ! 1, rd_week_number = first ! 2,
                           rd_year = first ! 3, rd_status = first ! 4,
                           rd_items = map item_of_result
                                        (filter (\<lambda>result. truthy (result ! 6)) (first # rest)) \<rparr>)))"

section \<open>Reconciliation and adaptation (roadmap\_generator.py)\<close>

text \<open>
  The rows of the analytics query: one per (week\_number, year, item status) with its
  count, latest week first. SQL fixes no order among the groups of one week; here they
  come in the order of \<open>remdups\<close>.
\<close>

definition analytics_groups :: "database \<Rightarrow> string \<Rightarrow> int \<Rightarrow> (int \<times> int \<times> string \<times> int) list" where
  "analytics_groups db uid min_week =
     (let joined = [(r_week_number r, r_year r, ri_status i).
                      r \<leftarrow> roadmaps db, r_user_id r = uid, r_week_number r \<ge> min_week,
                      i \<leftarrow> roadmap_items db, ri_roadmap_id i = r_id r]
      in sort_key (\<lambda>(w, y, s, c). (- y, - w))
           (map (\<lambda>(w, y, s). (w, y, s, int (length (filter (\<lambda>g. g = (w, y, s)) joined))))
                (remdups joined)))"

text \<open>
  \<^verbatim>\<open>weekly_stats\<close>: the key \<^verbatim>\<open>f"{year}-W{week}"\<close> is modelled as the pair (year, week);
  the per-week dictionary maps strings to numbers. \<open>stats_get\<close> is a subscript on a key
  that is present whenever the source reads it.
\<close>

type_synonym week_stats = "(string \<times> rat) list"

definition stats_get :: "week_stats \<Rightarrow> string \<Rightarrow> rat" where
  "stats_get st k = (case map_of st k of Some v \<Rightarrow> v | None \<Rightarrow> 0)"

definition add_group ::
  "((int \<times> int) \<times> week_stats) list \<Rightarrow> int \<times> int \<times> string \<times> int \<Rightarrow> ((int \<times> int) \<times> week_stats) list" where
  "add_group ws g =
     (case g of (w, y, status, cnt) \<Rightarrow>
        let st0 = (case map_of ws (y, w) of
                     Some st \<Rightarrow> st
                   | None \<Rightarrow> [(''completed'', 0), (''pending'', 0), (''skipped'', 0), (''total'', 0)]);
            st1 = dict_set st0 status (of_int cnt);
            st2 = dict_set st1 ''total'' (stats_get st1 ''total'' + of_int cnt)
        in dict_set ws (y, w) st2)"

text \<open>\<^verbatim>\<open>(completed / total * 100) if total > 0 else 0\<close>: a true division of two ints,
  then a float product.\<close>

definition completion_rate :: "week_stats \<Rightarrow> rat" where
  "completion_rate st =
     (if stats_get st ''total'' > 0
      then fl_round (fl_round (stats_get st ''completed'' / stats_get st ''total'') * 100)
      else 0)"

record analytics =
  weekly_stats :: "((int \<times> int) \<times> week_stats) list"
  avg_completion_rate :: rat
  total_weeks_tracked :: nat

definition get_roadmap_analytics :: "clock \<Rightarrow> database \<Rightarrow> string \<Rightarrow> int \<Rightarrow> analytics" where
  "get_roadmap_analytics clk db uid weeks_back =
     (let ws = map (\<lambda>(k, st). (k, dict_set st ''completion_rate'' (completion_rate st)))
                 (foldl add_group [] (analytics_groups db uid (now_week clk - weeks_back)))
      in \<lparr> weekly_stats = ws,
           avg_completion_rate =
             (if ws \<noteq> []
              then float_mean (map (\<lambda>(k, st). stats_get st ''completion_rate'') ws)
              else 0),
           total_weeks_tracked = length ws \<rparr>)"

text \<open>\<^verbatim>\<open>str\<close> of a non-negative integer, for the f-strings of the directives.\<close>

function str_nat :: "nat \<Rightarrow> string" where
  "str_nat n =
     (if n < 10 then [''0123456789'' ! n]
      else str_nat (n div 10) @ [''0123456789'' ! (n mod 10)])"
  by pat_completeness auto
termination
  by (relation "measure (\<lambda>n. n)") auto

declare str_nat.simps [simp del]

record adaptation =
  ad_type :: string
  ad_subject :: "string option"
  ad_reason :: string
  ad_action :: string

definition subject_struggles :: "progress list \<Rightarrow> (string \<times> nat) list" where
  "subject_struggles progress =
     foldl (\<lambda>d p. if pr_status p = ''struggling''
                   then dict_set d (pr_subject_name p)
                          ((case map_of d (pr_subject_name p) of Some c \<Rightarrow> c | None \<Rightarrow> 0) + 1)
                   else d) [] progress"

record adaptation_result =
  adaptations :: "adaptation list"
  recommended_changes :: bool

definition adapt_roadmap_based_on_performance :: "clock \<Rightarrow> database \<Rightarrow> string \<Rightarrow> adaptation_result" where
  "adapt_roadmap_based_on_performance clk db uid =
     (let an = get_roadmap_analytics clk db uid 2;
          progress = get_user_progress db uid;
          reduce = (if avg_completion_rate an < 50
                    then [\<lparr> ad_type = ''reduce_workload'', ad_subject = None,
                             ad_reason = ''Low completion rate'',
                             ad_action = ''Reduce daily study hours by 1'' \<rparr>]
                    else []);
          focus = map (\<lambda>(subject, count).
                         \<lparr> ad_type = ''increase_focus'', ad_subject = Some subject,
                           ad_reason = ''Struggling with '' @ str_nat count @ '' topics'',
                           ad_action = ''Increase '' @ subject @ '' study time by 30%'' \<rparr>)
                      (filter (\<lambda>(subject, count). count \<ge> 2) (subject_struggles progress));
          raise = (if avg_completion_rate an > 80
                   then (if (if progress \<noteq> []
                             then float_mean (map pr_mastery_level progress) else 0)
                            > fl_round (7/10)
                         then [\<lparr> ad_type = ''increase_difficulty'', ad_subject = None,
                                  ad_reason = ''Excellent performance'',
                                  ad_action = ''Add advanced topics and mock tests'' \<rparr>]
                         else [])
                   else []);
          result = reduce @ focus @ raise
      in \<lparr> adaptations = result, recommended_changes = (result \<noteq> []) \<rparr>)"

section \<open>Example data\<close>

definition example_clock :: clock where
  "example_clock = \<lparr> now_year = 2025, now_month = 1, now_week = 3, now_stamp = 1000,
     now_text = ''2025-01-15 10:00:00'', week_at = (\<lambda>k. Some (3 + k, 2025)) \<rparr>"

definition empty_db :: database where
  "empty_db = \<lparr> users = [], user_profiles = [], subjects = [], topics = [],
     user_progress = [], roadmaps = [], roadmap_items = [] \<rparr>"

definition seed_subjects :: "subject_row list" where
  "seed_subjects =
     [\<lparr> s_id = ''physics_jee_neet'', s_name = ''Physics'', s_exam_type = ''BOTH'',
        s_weightage = 33, s_total_chapters = 30 \<rparr>,
      \<lparr> s_id = ''chemistry_jee_neet'', s_name = ''Chemistry'', s_exam_type = ''BOTH'',
        s_weightage = 33, s_total_chapters = 30 \<rparr>,
      \<lparr> s_id = ''mathematics_jee'', s_name = ''Mathematics'', s_exam_type = ''JEE'',
        s_weightage = 34, s_total_chapters = 25 \<rparr>,
      \<lparr> s_id = ''biology_neet'', s_name = ''Biology'', s_exam_type = ''NEET'',
        s_weightage = 34, s_total_chapters = 40 \<rparr>]"

definition example_topics :: "topic_row list" where
  "example_topics =
     [\<lparr> t_id = ''physics_mechanics'', t_subject_id = ''physics_jee_neet'', t_name = ''Mechanics'',
        t_chapter_number = 1, t_difficulty_level = 4, t_importance = 5, t_estimated_hours = 40 \<rparr>,
      \<lparr> t_id = ''physics_optics'', t_subject_id = ''physics_jee_neet'', t_name = ''Optics'',
        t_chapter_number = 5, t_difficulty_level = 3, t_importance = 4, t_estimated_hours = 20 \<rparr>,
      \<lparr> t_id = ''chemistry_atomic_structure'', t_subject_id = ''chemistry_jee_neet'',
        t_name = ''Atomic Structure'',
        t_chapter_number = 1, t_difficulty_level = 3, t_importance = 5, t_estimated_hours = 20 \<rparr>,
      \<lparr> t_id = ''mathematics_algebra'', t_subject_id = ''mathematics_jee'', t_name = ''Algebra'',
        t_chapter_number = 1, t_difficulty_level = 4, t_importance = 5, t_estimated_hours = 45 \<rparr>,
      \<lparr> t_id = ''mathematics_calculus'', t_subject_id = ''mathematics_jee'', t_name = ''Calculus'',
        t_chapter_number = 4, t_difficulty_level = 5, t_importance = 5, t_estimated_hours = 50 \<rparr>,
      \<lparr> t_id = ''biology_genetics'', t_subject_id = ''biology_neet'', t_name = ''Genetics'',
        t_chapter_number = 2, t_difficulty_level = 4, t_importance = 5, t_estimated_hours = 30 \<rparr>]"

text \<open>Three users on the seeded catalogue: \<open>u1\<close> on JEE with 4 hours a day, \<open>u2\<close> on NEET
  with 5, and \<open>u3\<close> whose exam track is neither.\<close>

definition example_db :: database where
  "example_db =
     \<lparr> users =
         [\<lparr> u_id = ''u1'', u_name = ''Asha'', u_exam_type = ''JEE'', u_target_year = Some 2026 \<rparr>,
          \<lparr> u_id = ''u2'', u_name = ''Ravi'', u_exam_type = ''NEET'', u_target_year = Some 2026 \<rparr>,
          \<lparr> u_id = ''u3'', u_name = ''Mina'', u_exam_type = ''SAT'', u_target_year = Some 2026 \<rparr>],
       user_profiles =
         [\<lparr> up_user_id = ''u1'', up_study_hours_per_day = 4 \<rparr>,
          \<lparr> up_user_id = ''u2'', up_study_hours_per_day = 5 \<rparr>,
          \<lparr> up_user_id = ''u3'', up_study_hours_per_day = 4 \<rparr>],
       subjects = seed_subjects, topics = example_topics,
       user_progress = [], roadmaps = [], roadmap_items = [] \<rparr>"

definition example_uuid4 :: "nat \<Rightarrow> string" where
  "example_uuid4 k = ''uuid-'' @ str_nat k"

definition jee_profile :: user_profile where
  "jee_profile =
     \<lparr> profile_id = ''u1'', profile_name = ''Asha'', exam_type = ''JEE'',
       target_year = Some 2026, user_id = ''u1'', study_hours_per_day = 4 \<rparr>"


text \<open>Progress of a JEE learner: weak in Physics, strong in Chemistry, nothing recorded in
  Mathematics.\<close>

definition uneven_progress :: "progress list" where
  "uneven_progress =
     [\<lparr> pr_topic_id = ''physics_mechanics'', pr_mastery_level = 2/10, pr_attempts = 2,
        pr_status = ''in_progress'', pr_topic_name = ''Mechanics'',
        pr_subject_id = ''physics_jee_neet'', pr_subject_name = ''Physics'' \<rparr>,
      \<lparr> pr_topic_id = ''chemistry_atomic_structure'', pr_mastery_level = 75/100, pr_attempts = 2,
        pr_status = ''in_progress'', pr_topic_name = ''Atomic Structure'',
        pr_subject_id = ''chemistry_jee_neet'', pr_subject_name = ''Chemistry'' \<rparr>]"



text \<open>The roadmap a call of \<^verbatim>\<open>generate_weekly_roadmap\<close> returned, if it returned one.\<close>

definition generated_of :: "(py_error + roadmap_response) \<times> database \<Rightarrow> generated_roadmap option" where
  "generated_of res = (case fst res of Inr (Generated g) \<Rightarrow> Some g | _ \<Rightarrow> None)"

text \<open>A day of a weekly plan, by its name.\<close>

definition day_of_plan :: "string \<Rightarrow> weekly_plan \<Rightarrow> day_plan option" where
  "day_of_plan nm plan = map_of plan nm"

text \<open>The example database after two weeks (weeks 1 and 2 of 2025) in which \<open>u1\<close> completed
  2 of 5 roadmap items each.\<close>

definition lagging_db :: database where
  "lagging_db =
     example_db
       \<lparr> roadmaps :=
           map (\<lambda>(rid, week).
                  \<lparr> r_id = rid, r_user_id = ''u1'', r_week_number = week, r_year = 2025,
                    r_status = ''active'', r_created_at = ''2025-01-01 09:00:00'',
                    r_updated_at = ''2025-01-01 09:00:00'' \<rparr>)
               [(''r1'', 1), (''r2'', 2)],
         roadmap_items :=
           map (\<lambda>(iid, rid, day, st).
                  \<lparr> ri_id = iid, ri_roadmap_id = rid, ri_topic_id = ''physics_mechanics'',
                    ri_day_of_week = day, ri_study_hours = 2, ri_priority = 1,
                    ri_status = st \<rparr>)
               [(''a1'', ''r1'', 1, ''completed''), (''a2'', ''r1'', 2, ''completed''),
                (''a3'', ''r1'', 3, ''pending''), (''a4'', ''r1'', 4, ''pending''),
                (''a5'', ''r1'', 5, ''skipped''),
                (''b1'', ''r2'', 1, ''completed''), (''b2'', ''r2'', 2, ''pending''),
                (''b3'', ''r2'', 3, ''completed''), (''b4'', ''r2'', 4, ''pending''),
                (''b5'', ''r2'', 5, ''pending'')] \<rparr>"

text \<open>The same database with one more roadmap of \<open>u1\<close>, of week 40 of 2024, whose five
  items are all completed.\<close>

definition stale_db :: database where
  "stale_db =
     lagging_db
       \<lparr> roadmaps :=
           \<lparr> r_id = ''r0'', r_user_id = ''u1'', r_week_number = 40, r_year = 2024,
             r_status = ''active'', r_created_at = ''2024-09-30 09:00:00'',
             r_updated_at = ''2024-09-30 09:00:00'' \<rparr> # roadmaps lagging_db,
         roadmap_items :=
           map (\<lambda>(iid, day).
                  \<lparr> ri_id = iid, ri_roadmap_id = ''r0'', ri_topic_id = ''physics_mechanics'',
                    ri_day_of_week = day, ri_study_hours = 2, ri_priority = 1,
                    ri_status = ''completed'' \<rparr>)
               [(''z1'', 1), (''z2'', 2), (''z3'', 3), (''z4'', 4), (''z5'', 5)]
           @ roadmap_items lagging_db \<rparr>"

section \<open>Progress status\<close>

text \<open>
  Claim C1, as stated: a mastery level below 0.4 with more than 3 attempts is stored as
  \<^verbatim>\<open>struggling\<close>, in particular mastery 0.35 with 5 attempts. The method stores
  \<^verbatim>\<open>in_progress\<close> for that input: its third branch tests \<^verbatim>\<open>mastery_level < 0.3\<close>.
\<close>

theorem update_progress_status_counterexample:
  "map p_status (user_progress (update_progress example_clock empty_db ''u1'' ''physics_mechanics''
        (35/100) 30 5 1)) = [''in_progress'']
   \<and> (35/100 :: rat) < 4/10 \<and> (5::int) > 3 \<and> ''in_progress'' \<noteq> ''struggling''"
  by (simp add: update_progress_def insert_or_replace_progress_def progress_status_def empty_db_def)

text \<open>
  Claim C1, amended: after \<^verbatim>\<open>update_progress(user, topic, m, ts, a, c)\<close> the table holds
  exactly one record for (user, topic); it carries \<open>m\<close> and \<open>a\<close>, and its status is
  \<^verbatim>\<open>completed\<close> for \<open>m \<ge> 0.8\<close>, \<^verbatim>\<open>in_progress\<close> for \<open>0.4 \<le> m < 0.8\<close>,
  \<^verbatim>\<open>struggling\<close> for \<open>m < 0.3\<close> with more than 3 attempts, and \<^verbatim>\<open>in_progress\<close>
  otherwise (so also for \<open>0.3 \<le> m < 0.4\<close>, whatever the attempts).
\<close>

theorem update_progress_status:
  "\<exists>r. filter (\<lambda>r. p_user_id r = uid \<and> p_topic_id r = tid)
           (user_progress (update_progress clk db uid tid m ts a c)) = [r]
       \<and> p_mastery_level r = m \<and> p_attempts r = a
       \<and> p_status r =
           (if m \<ge> 8/10 then ''completed''
            else if 4/10 \<le> m \<and> m < 8/10 then ''in_progress''
            else if m < 3/10 \<and> a > 3 then ''struggling''
            else ''in_progress'')"
proof -
  have "filter (\<lambda>r. p_user_id r = uid \<and> p_topic_id r = tid)
          (filter (\<lambda>r. \<not> (p_id r = uid @ ''_'' @ tid \<or> (p_user_id r = uid \<and> p_topic_id r = tid)))
             (user_progress db)) = []"
    by (simp add: filter_empty_conv)
  then show ?thesis
    by (simp add: update_progress_def insert_or_replace_progress_def progress_status_def)
qed

theorem update_progress_status_witness:
  "\<exists>r. filter (\<lambda>r. p_user_id r = ''u1'' \<and> p_topic_id r = ''physics_mechanics'')
           (user_progress (update_progress example_clock empty_db ''u1'' ''physics_mechanics''
              (25/100) 30 5 1)) = [r]
       \<and> p_mastery_level r = 25/100 \<and> p_attempts r = 5 \<and> p_status r = ''struggling''"
  using update_progress_status [of "''u1''" "''physics_mechanics''" example_clock empty_db
      "25/100" 30 5 1]
  by simp

section \<open>Allocation percentages\<close>

lemma map_of_dict_set: "map_of (dict_set d k v) = (map_of d)(k \<mapsto> v)"
  by (induction d k v rule: dict_set.induct) (auto simp: fun_upd_twist)

lemma map_of_subject_performance_aux:
  "map_of (foldl (\<lambda>d s. dict_set d (s_name s) (f (s_name s))) d0 subjs) nm =
     (if nm \<in> s_name ` set subjs then Some (f nm) else map_of d0 nm)"
  by (induction subjs arbitrary: d0) (auto simp: map_of_dict_set)

lemma map_of_subject_performance:
  "map_of (subject_performance_of progress subjs) nm =
     (if nm \<in> s_name ` set subjs then Some (subject_mean progress nm) else None)"
  unfolding subject_performance_of_def by (simp add: map_of_subject_performance_aux)

lemma adjust_percent_cases:
  "adjust_percent p b = min 50 (b + 10) \<or> adjust_percent p b = max 20 (b - 5) \<or> adjust_percent p b = b"
  by (simp add: adjust_percent_def split: option.splits)

lemma normalize3:
  "normalize_allocation [(x, a), (y, b), (z, c)] =
     [(x, py_round_div (a * 100) (a + b + c)), (y, py_round_div (b * 100) (a + b + c)),
      (z, py_round_div (c * 100) (a + b + c))]"
  by (simp add: normalize_allocation_def Let_def add.assoc)

lemma allocation_sum_jee:
  assumes "a = 43 \<or> a = 28 \<or> a = 33" "b = 43 \<or> b = 28 \<or> b = 33" "c = 44 \<or> c = 29 \<or> c = 34"
  shows "py_round_div (a * 100) (a + b + c) + py_round_div (b * 100) (a + b + c)
           + py_round_div (c * 100) (a + b + c) \<in> {99, 100, 101}"
  using assms by (elim disjE; simp add: py_round_div_def)

lemma allocation_sum_neet:
  assumes "a = 35 \<or> a = 20 \<or> a = 25" "b = 35 \<or> b = 20 \<or> b = 25" "c = 50 \<or> c = 45"
  shows "py_round_div (a * 100) (a + b + c) + py_round_div (b * 100) (a + b + c)
           + py_round_div (c * 100) (a + b + c) \<in> {99, 100, 101}"
  using assms by (elim disjE; simp add: py_round_div_def)

lemma allocation_sum:
  "sum_list (map snd (normalize_allocation (adjusted_allocation perf (base_allocation et))))
     \<in> {99, 100, 101}"
proof (cases "et = ''JEE''")
  case True
  have a: "adjust_percent (map_of perf ''Physics'') 33 = 43 \<or> adjust_percent (map_of perf ''Physics'') 33 = 28
       \<or> adjust_percent (map_of perf ''Physics'') 33 = 33"
    using adjust_percent_cases [of "map_of perf ''Physics''" 33] by simp
  have b: "adjust_percent (map_of perf ''Chemistry'') 33 = 43 \<or> adjust_percent (map_of perf ''Chemistry'') 33 = 28
       \<or> adjust_percent (map_of perf ''Chemistry'') 33 = 33"
    using adjust_percent_cases [of "map_of perf ''Chemistry''" 33] by simp
  have c: "adjust_percent (map_of perf ''Mathematics'') 34 = 44 \<or> adjust_percent (map_of perf ''Mathematics'') 34 = 29
       \<or> adjust_percent (map_of perf ''Mathematics'') 34 = 34"
    using adjust_percent_cases [of "map_of perf ''Mathematics''" 34] by simp
  show ?thesis
    using allocation_sum_jee [OF a b c] True
    by (simp add: adjusted_allocation_def base_allocation_def normalize3 add.assoc)
next
  case False
  have a: "adjust_percent (map_of perf ''Physics'') 25 = 35 \<or> adjust_percent (map_of perf ''Physics'') 25 = 20
       \<or> adjust_percent (map_of perf ''Physics'') 25 = 25"
    using adjust_percent_cases [of "map_of perf ''Physics''" 25] by simp
  have b: "adjust_percent (map_of perf ''Chemistry'') 25 = 35 \<or> adjust_percent (map_of perf ''Chemistry'') 25 = 20
       \<or> adjust_percent (map_of perf ''Chemistry'') 25 = 25"
    using adjust_percent_cases [of "map_of perf ''Chemistry''" 25] by simp
  have c: "adjust_percent (map_of perf ''Biology'') 50 = 50 \<or> adjust_percent (map_of perf ''Biology'') 50 = 45"
    using adjust_percent_cases [of "map_of perf ''Biology''" 50] by auto
  show ?thesis
    using allocation_sum_neet [OF a b c] False
    by (simp add: adjusted_allocation_def base_allocation_def normalize3 add.assoc)
qed

lemma create_roadmap_strategy_allocation:
  "create_roadmap_strategy clk prof progress subjs = Inr st \<Longrightarrow>
   subject_allocation st =
     normalize_allocation (adjusted_allocation (subject_performance_of progress subjs)
        (base_allocation (exam_type prof)))"
  by (auto simp: create_roadmap_strategy_def Let_def split: sum.splits prod.splits)

lemma jee_subjects: "get_subjects_for_exam example_db ''JEE'' = take 3 seed_subjects"
  by (simp add: get_subjects_for_exam_def example_db_def seed_subjects_def)


text \<open>
  Claim C2, as stated: after the renormalisation step the percentages sum to exactly 100.
  For a JEE learner with mean mastery 0.2 in Physics, 0.75 in Chemistry and no progress in
  Mathematics the adjusted percentages are 43, 28 and 44; each is rounded on its own, to
  37, 24 and 38, which sum to 99.
\<close>

theorem allocation_sum_counterexample:
  "map_sum id subject_allocation
     (create_roadmap_strategy example_clock jee_profile uneven_progress
        (get_subjects_for_exam example_db ''JEE''))
   = Inr [(''Physics'', 37), (''Chemistry'', 24), (''Mathematics'', 38)]
   \<and> (37::int) + 24 + 38 \<noteq> 100"
  by (simp add: create_roadmap_strategy_def months_until_exam_def example_clock_def jee_subjects seed_subjects_def
      progress_phase_def avg_mastery_def uneven_progress_def subject_performance_of_def
      subject_mean_def jee_profile_def base_allocation_def adjusted_allocation_def
      adjust_percent_def normalize_allocation_def py_round_div_def Let_def)


text \<open>
  Claim C2, amended: the percentages produced by \<^verbatim>\<open>create_roadmap_strategy\<close> after the
  renormalisation step are integers that sum to 99, 100 or 101: each percentage is rounded
  independently and the residue is not redistributed.
\<close>

theorem allocation_sum_within_one:
  "create_roadmap_strategy clk prof progress subjs = Inr st \<Longrightarrow>
   sum_list (map snd (subject_allocation st)) \<in> {99, 100, 101}"
  by (simp only: create_roadmap_strategy_allocation allocation_sum)


theorem allocation_sum_within_one_witness:
  "create_roadmap_strategy example_clock jee_profile [] (get_subjects_for_exam example_db ''JEE'')
     = Inr \<lparr> phase = ''foundation'', months_remaining = 15,
             focus_areas = [''basic_concepts'', ''ncert_completion''],
             subject_allocation = [(''Physics'', 33), (''Chemistry'', 33), (''Mathematics'', 34)],
             subject_performance = [(''Physics'', 0), (''Chemistry'', 0), (''Mathematics'', 0)],
             priority_subjects = [''Physics'', ''Chemistry'', ''Mathematics''],
             study_intensity = ''low_medium'' \<rparr>
   \<and> sum_list (map snd [(''Physics'', 33::int), (''Chemistry'', 33), (''Mathematics'', 34)])
        \<in> {99, 100, 101}"
proof -
  have run: "create_roadmap_strategy example_clock jee_profile []
               (get_subjects_for_exam example_db ''JEE'')
     = Inr \<lparr> phase = ''foundation'', months_remaining = 15,
             focus_areas = [''basic_concepts'', ''ncert_completion''],
             subject_allocation = [(''Physics'', 33), (''Chemistry'', 33), (''Mathematics'', 34)],
             subject_performance = [(''Physics'', 0), (''Chemistry'', 0), (''Mathematics'', 0)],
             priority_subjects = [''Physics'', ''Chemistry'', ''Mathematics''],
             study_intensity = ''low_medium'' \<rparr>"
    by (simp add: create_roadmap_strategy_def months_until_exam_def example_clock_def jee_subjects seed_subjects_def
      progress_phase_def subject_performance_of_def get_priority_subjects_def
      calculate_study_intensity_def
      subject_mean_def jee_profile_def base_allocation_def adjusted_allocation_def
      adjust_percent_def normalize_allocation_def py_round_div_def Let_def)
  from allocation_sum_within_one [OF run] run show ?thesis by simp
qed

section \<open>A new learner\<close>

lemma create_roadmap_strategy_phase:
  "create_roadmap_strategy clk prof progress subjs = Inr st \<Longrightarrow>
   phase st = fst (progress_phase progress)"
  by (auto simp: create_roadmap_strategy_def Let_def split: sum.splits prod.splits)

lemma generate_weekly_roadmap_strategy:
  assumes "generate_weekly_roadmap clk uuid4 db uid off = (Inr (Generated g), db')"
  shows "\<exists>prof. get_user_profile db uid = Some prof \<and>
           create_roadmap_strategy clk prof (get_user_progress db uid)
             (get_subjects_for_exam db (exam_type prof)) = Inr (g_strategy g)"
  using assms
  by (auto simp: generate_weekly_roadmap_def Let_def split: option.splits sum.splits prod.splits)

lemma new_user_allocation_jee:
  assumes "{''Physics'', ''Chemistry'', ''Mathematics''} \<subseteq> s_name ` set subjs"
  shows "normalize_allocation (adjusted_allocation (subject_performance_of [] subjs)
           (base_allocation ''JEE''))
         = [(''Physics'', 33), (''Chemistry'', 33), (''Mathematics'', 34)]"
proof -
  have "map_of (subject_performance_of [] subjs) ''Physics'' = Some 0"
       "map_of (subject_performance_of [] subjs) ''Chemistry'' = Some 0"
       "map_of (subject_performance_of [] subjs) ''Mathematics'' = Some 0"
    using assms by (auto simp: map_of_subject_performance subject_mean_def)
  then show ?thesis
    by (simp add: adjusted_allocation_def base_allocation_def normalize3 adjust_percent_def
        py_round_div_def)
qed

lemma generated_ofD: "generated_of res = Some g \<Longrightarrow> \<exists>db'. res = (Inr (Generated g), db')"
  by (cases res) (auto simp: generated_of_def split: sum.splits roadmap_response.splits)

text \<open>
  Claim C3: for a user on the JEE track with no progress records, on a catalogue that
  holds the three JEE subjects, every roadmap that \<^verbatim>\<open>generate_weekly_roadmap\<close> returns
  carries the subject allocation Physics 33, Chemistry 33, Mathematics 34 and the phase
  \<^verbatim>\<open>foundation\<close>. The witness runs the whole generation for such a user and reads both
  off the roadmap returned.
\<close>

theorem new_jee_user_roadmap:
  assumes "get_user_profile db uid = Some prof"
    and "exam_type prof = ''JEE''"
    and "get_user_progress db uid = []"
    and "{''Physics'', ''Chemistry'', ''Mathematics''} \<subseteq> s_name ` set (get_subjects_for_exam db ''JEE'')"
    and "generate_weekly_roadmap clk uuid4 db uid week_offset = (Inr (Generated g), db')"
  shows "subject_allocation (g_strategy g)
           = [(''Physics'', 33), (''Chemistry'', 33), (''Mathematics'', 34)]
         \<and> phase (g_strategy g) = ''foundation''"
proof -
  from generate_weekly_roadmap_strategy [OF assms(5)] assms(1,2,3)
  have st: "create_roadmap_strategy clk prof [] (get_subjects_for_exam db ''JEE'') = Inr (g_strategy g)"
    by auto
  have "subject_allocation (g_strategy g)
           = [(''Physics'', 33), (''Chemistry'', 33), (''Mathematics'', 34)]"
    using create_roadmap_strategy_allocation [OF st] new_user_allocation_jee [OF assms(4)] assms(2)
    by simp
  moreover have "phase (g_strategy g) = ''foundation''"
    using create_roadmap_strategy_phase [OF st] by (simp add: progress_phase_def)
  ultimately show ?thesis by simp
qed

theorem new_jee_user_roadmap_witness:
  "map_option (subject_allocation \<circ> g_strategy)
     (generated_of (generate_weekly_roadmap example_clock example_uuid4 example_db ''u1'' 0))
     = Some [(''Physics'', 33), (''Chemistry'', 33), (''Mathematics'', 34)]
   \<and> map_option (phase \<circ> g_strategy)
     (generated_of (generate_weekly_roadmap example_clock example_uuid4 example_db ''u1'' 0))
     = Some ''foundation''"
proof -
  have "generated_of (generate_weekly_roadmap example_clock example_uuid4 example_db ''u1'' 0) \<noteq> None"
    by code_simp
  then obtain g where g: "generated_of (generate_weekly_roadmap example_clock example_uuid4 example_db ''u1'' 0) = Some g"
    by auto
  then obtain db' where run: "generate_weekly_roadmap example_clock example_uuid4 example_db ''u1'' 0
      = (Inr (Generated g), db')"
    using generated_ofD by blast
  have prof: "get_user_profile example_db ''u1'' = Some jee_profile"
    by (simp add: get_user_profile_def example_db_def jee_profile_def)
  have et: "exam_type jee_profile = ''JEE''"
    by (simp add: jee_profile_def)
  have prog: "get_user_progress example_db ''u1'' = []"
    by (simp add: get_user_progress_def example_db_def)
  have subj: "{''Physics'', ''Chemistry'', ''Mathematics''}
      \<subseteq> s_name ` set (get_subjects_for_exam example_db ''JEE'')"
    by (simp add: jee_subjects seed_subjects_def)
  from new_jee_user_roadmap [OF prof et prog subj run] g show ?thesis
    by simp
qed

section \<open>Monotonicity of the allocation\<close>









section \<open>The weekly plan\<close>

lemma dp_day_regular: "dp_day (regular_day_plan db all_topics strat prof day) = day"
  by (simp add: regular_day_plan_def Let_def)

lemma generate_weekly_plan_days:
  assumes "generate_weekly_plan db strat prof = Inr plan"
  shows "plan =
     [(''Monday'', regular_day_plan db (all_topics_of db (get_subjects_for_exam db (exam_type prof))) strat prof 1),
      (''Tuesday'', regular_day_plan db (all_topics_of db (get_subjects_for_exam db (exam_type prof))) strat prof 2),
      (''Wednesday'', regular_day_plan db (all_topics_of db (get_subjects_for_exam db (exam_type prof))) strat prof 3),
      (''Thursday'', regular_day_plan db (all_topics_of db (get_subjects_for_exam db (exam_type prof))) strat prof 4),
      (''Friday'', regular_day_plan db (all_topics_of db (get_subjects_for_exam db (exam_type prof))) strat prof 5),
      (''Saturday'', regular_day_plan db (all_topics_of db (get_subjects_for_exam db (exam_type prof))) strat prof 6),
      (''Sunday'', sunday_plan (study_hours_per_day prof))]"
  using assms by (simp add: generate_weekly_plan_def Let_def day_name_def split: if_splits)

lemma generate_weekly_roadmap_plan:
  assumes "generate_weekly_roadmap clk uuid4 db uid off = (Inr (Generated g), db')"
  shows "\<exists>prof. get_user_profile db uid = Some prof
           \<and> generate_weekly_plan db (g_strategy g) prof = Inr (g_weekly_plan g)
           \<and> g_study_hours_per_day g = study_hours_per_day prof"
  using assms
  by (auto simp: generate_weekly_roadmap_def Let_def split: option.splits sum.splits prod.splits)

text \<open>
  Claim C5, as stated: each of the two Sunday activities is allotted half of the daily
  study-hour budget. The durations are \<^verbatim>\<open>study_hours_per_day // 2\<close>: with a budget of 5
  hours each activity gets 2 hours.
\<close>

theorem sunday_half_counterexample:
  "map_option g_study_hours_per_day
     (generated_of (generate_weekly_roadmap example_clock example_uuid4 example_db ''u2'' 0))
     = Some 5
   \<and> map_option (map a_duration \<circ> dp_activities)
       (Option.bind (map_option g_weekly_plan
          (generated_of (generate_weekly_roadmap example_clock example_uuid4 example_db ''u2'' 0)))
          (day_of_plan ''Sunday''))
     = Some [2, 2]
   \<and> (2::int) * 2 \<noteq> 5"
  by code_simp

text \<open>
  Claim C5, amended: in every plan that \<^verbatim>\<open>generate_weekly_plan\<close> returns, day 7 is the one
  entry \<^verbatim>\<open>Sunday\<close>; it holds exactly two activities, a \<^verbatim>\<open>revision\<close> and a
  \<^verbatim>\<open>mock_test\<close>, each of duration \<open>budget div 2\<close> (the floor of half the daily budget, which
  is half of it when the budget is even), and no \<^verbatim>\<open>concept_study\<close> activity.
\<close>

theorem sunday_revision_and_mock_test:
  assumes "generate_weekly_plan db strat prof = Inr plan"
  shows "\<exists>dp. filter (\<lambda>(nm, dp). dp_day dp = 7) plan = [(''Sunday'', dp)]
           \<and> map a_type (dp_activities dp) = [''revision'', ''mock_test'']
           \<and> map a_duration (dp_activities dp)
               = [study_hours_per_day prof div 2, study_hours_per_day prof div 2]
           \<and> filter (\<lambda>a. a_type a = ''concept_study'') (dp_activities dp) = []"
  by (simp add: generate_weekly_plan_days [OF assms] dp_day_regular sunday_plan_def)

theorem sunday_revision_and_mock_test_witness:
  "map_option (map a_type \<circ> dp_activities)
       (Option.bind (map_option g_weekly_plan
          (generated_of (generate_weekly_roadmap example_clock example_uuid4 example_db ''u1'' 0)))
          (day_of_plan ''Sunday''))
     = Some [''revision'', ''mock_test'']
   \<and> map_option (map a_duration \<circ> dp_activities)
       (Option.bind (map_option g_weekly_plan
          (generated_of (generate_weekly_roadmap example_clock example_uuid4 example_db ''u1'' 0)))
          (day_of_plan ''Sunday''))
     = Some [4 div 2, 4 div 2]"
proof -
  have "generated_of (generate_weekly_roadmap example_clock example_uuid4 example_db ''u1'' 0) \<noteq> None"
    by code_simp
  then obtain g db' where run: "generate_weekly_roadmap example_clock example_uuid4 example_db ''u1'' 0
      = (Inr (Generated g), db')"
    using generated_ofD by blast
  from generate_weekly_roadmap_plan [OF run]
  obtain prof where plan: "generate_weekly_plan example_db (g_strategy g) prof = Inr (g_weekly_plan g)"
    by blast
  note sunday = sunday_revision_and_mock_test [OF plan]
  have c: "map_option (map a_type \<circ> dp_activities)
       (Option.bind (map_option g_weekly_plan
          (generated_of (generate_weekly_roadmap example_clock example_uuid4 example_db ''u1'' 0)))
          (day_of_plan ''Sunday''))
     = Some [''revision'', ''mock_test'']
   \<and> map_option (map a_duration \<circ> dp_activities)
       (Option.bind (map_option g_weekly_plan
          (generated_of (generate_weekly_roadmap example_clock example_uuid4 example_db ''u1'' 0)))
          (day_of_plan ''Sunday''))
     = Some [4 div 2, 4 div 2]"
    by code_simp
  from sunday c show ?thesis by simp
qed

lemma select_topics_for_day_Nil:
  "select_topics_for_day db tps uid ph = [] \<longleftrightarrow> tps = []"
proof -
  have sk: "sort_key f xs = [] \<longleftrightarrow> xs = []" for f :: "topic_row \<Rightarrow> int \<times> int" and xs
    by (metis length_sort length_0_conv)
  show ?thesis
    by (simp add: select_topics_for_day_def Let_def take_eq_Nil sk)
qed

lemma regular_day_activities_exact:
  fixes db prof strat day
  defines "all_topics \<equiv> all_topics_of db (get_subjects_for_exam db (exam_type prof))"
  defines "prim \<equiv> priority_subjects strat ! nat (day mod int (length (priority_subjects strat)))"
  defines "sec \<equiv> priority_subjects strat ! nat ((day + 1) mod int (length (priority_subjects strat)))"
  shows "\<exists>primary secondary.
      dp_activities (regular_day_plan db all_topics strat prof day) =
        primary @ secondary @
        [\<lparr> a_type = ''revision'', a_subject = ''Mixed'', a_topic = None, a_topic_id = None,
           a_duration = study_hours_per_day prof - int_mul_0_7 (study_hours_per_day prof)
                          - int_mul_0_2 (study_hours_per_day prof),
           a_priority = Some ''low'' \<rparr>]
    \<and> (topics_of_subject db prof prim = [] \<and> primary = [] \<or>
        (\<exists>t rest. select_topics_for_day db (topics_of_subject db prof prim)
                     (user_id prof) (phase strat) = t # rest
           \<and> primary =
           [\<lparr> a_type = ''concept_study'', a_subject = prim,
              a_topic = Some (t_name t), a_topic_id = Some (t_id t),
              a_duration = int_mul_0_7 (study_hours_per_day prof),
              a_priority = Some ''high'' \<rparr>]))
    \<and> (topics_of_subject db prof sec = [] \<and> secondary = [] \<or>
        (\<exists>t rest. select_topics_for_day db (topics_of_subject db prof sec)
                     (user_id prof) (phase strat) = t # rest
           \<and> secondary =
           [\<lparr> a_type = ''practice'', a_subject = sec,
              a_topic = Some (t_name t), a_topic_id = Some (t_id t),
              a_duration = int_mul_0_2 (study_hours_per_day prof),
              a_priority = Some ''medium'' \<rparr>]))"
proof -
  let ?sel = "\<lambda>s. select_topics_for_day db (topics_of_subject db prof s) (user_id prof) (phase strat)"
  let ?P = "case ?sel prim of
              [] \<Rightarrow> []
            | t # _ \<Rightarrow>
                [\<lparr> a_type = ''concept_study'', a_subject = prim,
                   a_topic = Some (t_name t), a_topic_id = Some (t_id t),
                   a_duration = int_mul_0_7 (study_hours_per_day prof),
                   a_priority = Some ''high'' \<rparr>]"
  let ?S = "case ?sel sec of
                   [] \<Rightarrow> []
                 | t # _ \<Rightarrow>
                     [\<lparr> a_type = ''practice'', a_subject = sec,
                        a_topic = Some (t_name t), a_topic_id = Some (t_id t),
                        a_duration = int_mul_0_2 (study_hours_per_day prof),
                        a_priority = Some ''medium'' \<rparr>]"
  have sel_Nil: "?sel s = [] \<longleftrightarrow> topics_of_subject db prof s = []" for s
    by (rule select_topics_for_day_Nil)
  have sec_eq: "(case all_topics sec of
              None \<Rightarrow> []
            | Some ts \<Rightarrow>
                (case select_topics_for_day db ts (user_id prof) (phase strat) of
                   [] \<Rightarrow> []
                 | t # _ \<Rightarrow>
                     [\<lparr> a_type = ''practice'', a_subject = sec,
                        a_topic = Some (t_name t), a_topic_id = Some (t_id t),
                        a_duration = int_mul_0_2 (study_hours_per_day prof),
                        a_priority = Some ''medium'' \<rparr>])) = ?S"
    by (simp add: topics_of_subject_def all_topics_def select_topics_for_day_def split: option.splits)
  have eq: "dp_activities (regular_day_plan db all_topics strat prof day) =
        ?P @ ?S @
        [\<lparr> a_type = ''revision'', a_subject = ''Mixed'', a_topic = None, a_topic_id = None,
           a_duration = study_hours_per_day prof - int_mul_0_7 (study_hours_per_day prof)
                          - int_mul_0_2 (study_hours_per_day prof),
           a_priority = Some ''low'' \<rparr>]"
  proof -
    have "dp_activities (regular_day_plan db all_topics strat prof day) =
        ?P @ (case all_topics sec of
              None \<Rightarrow> []
            | Some ts \<Rightarrow>
                (case select_topics_for_day db ts (user_id prof) (phase strat) of
                   [] \<Rightarrow> []
                 | t # _ \<Rightarrow>
                     [\<lparr> a_type = ''practice'', a_subject = sec,
                        a_topic = Some (t_name t), a_topic_id = Some (t_id t),
                        a_duration = int_mul_0_2 (study_hours_per_day prof),
                        a_priority = Some ''medium'' \<rparr>])) @
        [\<lparr> a_type = ''revision'', a_subject = ''Mixed'', a_topic = None, a_topic_id = None,
           a_duration = study_hours_per_day prof - int_mul_0_7 (study_hours_per_day prof)
                          - int_mul_0_2 (study_hours_per_day prof),
           a_priority = Some ''low'' \<rparr>]"
      unfolding prim_def sec_def all_topics_def topics_of_subject_def regular_day_plan_def Let_def
      by simp
    then show ?thesis by (simp only: sec_eq)
  qed
  have P: "topics_of_subject db prof prim = [] \<and> ?P = [] \<or>
        (\<exists>t rest. ?sel prim = t # rest \<and> ?P =
           [\<lparr> a_type = ''concept_study'', a_subject = prim,
              a_topic = Some (t_name t), a_topic_id = Some (t_id t),
              a_duration = int_mul_0_7 (study_hours_per_day prof),
              a_priority = Some ''high'' \<rparr>])"
    using sel_Nil [of prim] by (cases "?sel prim") simp_all
  have S: "topics_of_subject db prof sec = [] \<and> ?S = [] \<or>
        (\<exists>t rest. ?sel sec = t # rest \<and> ?S =
           [\<lparr> a_type = ''practice'', a_subject = sec,
              a_topic = Some (t_name t), a_topic_id = Some (t_id t),
              a_duration = int_mul_0_2 (study_hours_per_day prof),
              a_priority = Some ''medium'' \<rparr>])"
    using sel_Nil [of sec] by (cases "?sel sec") simp_all
  from eq P S show ?thesis by blast
qed


lemma int_mul_small_list:
  "\<forall>h \<in> set [0..24]. int_mul_0_7 h = 7 * h div 10 \<and> int_mul_0_2 h = 2 * h div 10"
  by code_simp

lemma int_mul_small:
  assumes "0 \<le> h" "h \<le> 24"
  shows "int_mul_0_7 h = 7 * h div 10 \<and> int_mul_0_2 h = 2 * h div 10"
proof -
  from assms have "h \<in> set [0..24]" by simp
  with int_mul_small_list show ?thesis by blast
qed

lemma dp_focus_regular:
  "dp_focus (regular_day_plan db all_topics strat prof day) =
     priority_subjects strat ! nat (day mod int (length (priority_subjects strat)))"
  by (simp add: regular_day_plan_def Let_def)

text \<open>
  Claim C6, as stated: on a regular day the primary activity gets 70% of the daily hours,
  the secondary 20% and the mixed revision 10%, for every budget. With the default budget
  of 4 hours Monday's activities last 2, 0 and 2 hours.
\<close>

theorem regular_day_percent_counterexample:
  "map_option g_study_hours_per_day
     (generated_of (generate_weekly_roadmap example_clock example_uuid4 example_db ''u1'' 0))
     = Some 4
   \<and> map_option (map a_type \<circ> dp_activities)
       (Option.bind (map_option g_weekly_plan
          (generated_of (generate_weekly_roadmap example_clock example_uuid4 example_db ''u1'' 0)))
          (day_of_plan ''Monday''))
     = Some [''concept_study'', ''practice'', ''revision'']
   \<and> map_option (map a_duration \<circ> dp_activities)
       (Option.bind (map_option g_weekly_plan
          (generated_of (generate_weekly_roadmap example_clock example_uuid4 example_db ''u1'' 0)))
          (day_of_plan ''Monday''))
     = Some [2, 0, 2]
   \<and> (10::int) * 2 \<noteq> 7 * 4 \<and> (10::int) * 0 \<noteq> 2 * 4 \<and> (10::int) * 2 \<noteq> 1 * 4"
  by code_simp

text \<open>
  Claim C6, amended: on every regular day (days 1 to 6) of a generated plan the activities
  are, in this order:
  \<^item> one \<^verbatim>\<open>concept_study\<close> activity of the day's primary subject (the day's focus), present
    exactly when the catalogue holds at least one topic for that subject; it carries the
    first topic that \<^verbatim>\<open>select_topics_for_day\<close> returns for the subject and lasts
    \<^verbatim>\<open>int(hours * 0.7)\<close>;
  \<^item> one \<^verbatim>\<open>practice\<close> activity of the secondary subject, present exactly when the catalogue
    holds at least one topic for that subject; it carries the first selected topic and lasts
    \<^verbatim>\<open>int(hours * 0.2)\<close>;
  \<^item> one \<^verbatim>\<open>revision\<close> activity of subject \<^verbatim>\<open>Mixed\<close> with no topic, always present, that
    lasts the rest, \<open>hours - int(hours * 0.7) - int(hours * 0.2)\<close>.

  For budgets from 0 to 24 the two truncated products are \<open>7 * hours div 10\<close> and
  \<open>2 * hours div 10\<close>; the shares are 70%, 20% and 10% when the budget is a multiple of 10.
\<close>

theorem regular_day_hours:
  assumes "generate_weekly_plan db strat prof = Inr plan"
    and "(nm, dp) \<in> set plan"
    and "dp_day dp \<noteq> 7"
  shows "\<exists>primary secondary.
      dp_activities dp =
        primary @ secondary @
        [\<lparr> a_type = ''revision'', a_subject = ''Mixed'', a_topic = None, a_topic_id = None,
           a_duration = study_hours_per_day prof - int_mul_0_7 (study_hours_per_day prof)
                          - int_mul_0_2 (study_hours_per_day prof),
           a_priority = Some ''low'' \<rparr>]
    \<and> (topics_of_subject db prof (dp_focus dp) = [] \<and> primary = [] \<or>
        (\<exists>t rest. select_topics_for_day db (topics_of_subject db prof (dp_focus dp))
                     (user_id prof) (phase strat) = t # rest
           \<and> primary =
           [\<lparr> a_type = ''concept_study'', a_subject = dp_focus dp,
              a_topic = Some (t_name t), a_topic_id = Some (t_id t),
              a_duration = int_mul_0_7 (study_hours_per_day prof),
              a_priority = Some ''high'' \<rparr>]))
    \<and> (topics_of_subject db prof
          (priority_subjects strat !
             nat ((dp_day dp + 1) mod int (length (priority_subjects strat)))) = []
        \<and> secondary = [] \<or>
        (\<exists>t rest. select_topics_for_day db
                     (topics_of_subject db prof
                        (priority_subjects strat !
                           nat ((dp_day dp + 1) mod int (length (priority_subjects strat)))))
                     (user_id prof) (phase strat) = t # rest
           \<and> secondary =
           [\<lparr> a_type = ''practice'',
              a_subject = priority_subjects strat !
                 nat ((dp_day dp + 1) mod int (length (priority_subjects strat))),
              a_topic = Some (t_name t), a_topic_id = Some (t_id t),
              a_duration = int_mul_0_2 (study_hours_per_day prof),
              a_priority = Some ''medium'' \<rparr>]))
    \<and> dp_focus dp = priority_subjects strat !
         nat (dp_day dp mod int (length (priority_subjects strat)))
    \<and> (0 \<le> study_hours_per_day prof \<and> study_hours_per_day prof \<le> 24 \<longrightarrow>
         int_mul_0_7 (study_hours_per_day prof) = 7 * study_hours_per_day prof div 10
       \<and> int_mul_0_2 (study_hours_per_day prof) = 2 * study_hours_per_day prof div 10)"
proof -
  from assms(2,3) generate_weekly_plan_days [OF assms(1)]
  obtain day where dp: "dp = regular_day_plan db
      (all_topics_of db (get_subjects_for_exam db (exam_type prof))) strat prof day"
    by (auto simp: sunday_plan_def)
  note focus = dp_focus_regular [of db "all_topics_of db (get_subjects_for_exam db (exam_type prof))" strat prof day]
  show ?thesis
    unfolding dp dp_day_regular
    using regular_day_activities_exact [of db prof strat day] int_mul_small [of "study_hours_per_day prof"]
    unfolding focus [symmetric]
    using focus by blast
qed

theorem regular_day_hours_witness:
  "map_option (map (\<lambda>a. (a_type a, a_subject a, a_topic a, a_duration a)) \<circ> dp_activities)
       (Option.bind (map_option g_weekly_plan
          (generated_of (generate_weekly_roadmap example_clock example_uuid4 example_db ''u1'' 0)))
          (day_of_plan ''Monday''))
     = Some [(''concept_study'', ''Chemistry'', Some ''Atomic Structure'', int_mul_0_7 4),
             (''practice'', ''Mathematics'', Some ''Calculus'', int_mul_0_2 4),
             (''revision'', ''Mixed'', None, 4 - int_mul_0_7 4 - int_mul_0_2 4)]
   \<and> int_mul_0_7 4 = 7 * 4 div 10 \<and> int_mul_0_2 4 = 2 * 4 div 10"
proof -
  have "generated_of (generate_weekly_roadmap example_clock example_uuid4 example_db ''u1'' 0) \<noteq> None"
    by code_simp
  then obtain g db' where run: "generate_weekly_roadmap example_clock example_uuid4 example_db ''u1'' 0
      = (Inr (Generated g), db')"
    using generated_ofD by blast
  from generate_weekly_roadmap_plan [OF run]
  obtain prof where plan: "generate_weekly_plan example_db (g_strategy g) prof = Inr (g_weekly_plan g)"
    by blast
  have mem: "(''Monday'', regular_day_plan example_db
      (all_topics_of example_db (get_subjects_for_exam example_db (exam_type prof)))
      (g_strategy g) prof 1) \<in> set (g_weekly_plan g)"
    by (simp add: generate_weekly_plan_days [OF plan])
  have day: "dp_day (regular_day_plan example_db
      (all_topics_of example_db (get_subjects_for_exam example_db (exam_type prof)))
      (g_strategy g) prof 1) \<noteq> 7"
    by (simp add: dp_day_regular)
  note monday = regular_day_hours [OF plan mem day]
  have c: "map_option (map (\<lambda>a. (a_type a, a_subject a, a_topic a, a_duration a)) \<circ> dp_activities)
       (Option.bind (map_option g_weekly_plan
          (generated_of (generate_weekly_roadmap example_clock example_uuid4 example_db ''u1'' 0)))
          (day_of_plan ''Monday''))
     = Some [(''concept_study'', ''Chemistry'', Some ''Atomic Structure'', int_mul_0_7 4),
             (''practice'', ''Mathematics'', Some ''Calculus'', int_mul_0_2 4),
             (''revision'', ''Mixed'', None, 4 - int_mul_0_7 4 - int_mul_0_2 4)]
   \<and> int_mul_0_7 4 = 7 * 4 div 10 \<and> int_mul_0_2 4 = 2 * 4 div 10"
    by code_simp
  from monday c show ?thesis by fast
qed

section \<open>Unrecognised exam tracks\<close>








lemma sunday_items: "day_items (sunday_plan h) = []"
  by (simp add: day_items_def sunday_plan_def)








section \<open>Unknown users\<close>

lemma get_user_profile_None:
  assumes "uid \<notin> up_user_id ` set (user_profiles db) \<or> uid \<notin> u_id ` set (users db)"
  shows "get_user_profile db uid = None"
proof -
  have none: "[(u, up). u \<leftarrow> users db, up \<leftarrow> user_profiles db,
                     u_id u = up_user_id up, u_id u = uid] = []"
    using assms by (force simp: concat_eq_Nil_conv)
  show ?thesis unfolding get_user_profile_def none by simp
qed

text \<open>
  Claim C10: when the user id has no row in \<^verbatim>\<open>user_profiles\<close> (or none in \<^verbatim>\<open>users\<close>),
  \<^verbatim>\<open>generate_weekly_roadmap\<close> returns the error value \<^verbatim>\<open>{"error": "User not found"}\<close>
  and the database it leaves is the one it was given: no roadmap and no roadmap item is
  written.
\<close>

theorem missing_profile_no_write:
  assumes "uid \<notin> up_user_id ` set (user_profiles db) \<or> uid \<notin> u_id ` set (users db)"
  shows "generate_weekly_roadmap clk uuid4 db uid week_offset
           = (Inr (ErrorResponse ''User not found''), db)"
  using get_user_profile_None [OF assms] by (simp add: generate_weekly_roadmap_def)

theorem missing_profile_no_write_witness:
  "generate_weekly_roadmap example_clock example_uuid4 example_db ''nobody'' 0
     = (Inr (ErrorResponse ''User not found''), example_db)"
proof -
  have "''nobody'' \<notin> up_user_id ` set (user_profiles example_db)
      \<or> ''nobody'' \<notin> u_id ` set (users example_db)"
    by (simp add: example_db_def)
  then show ?thesis by (rule missing_profile_no_write)
qed

section \<open>Persisted roadmap items\<close>

lemma plan_items_mem:
  assumes "(d, tid, a) \<in> set (plan_items plan)"
  shows "\<exists>nm dp. (nm, dp) \<in> set plan \<and> d = dp_day dp \<and> a \<in> set (dp_activities dp)
           \<and> a_topic_id a = Some tid"
  using assms by (auto simp: plan_items_def split: option.splits if_splits; blast)

lemma generated_plan_item_days:
  assumes "generate_weekly_plan db strat prof = Inr plan"
    and "(d, tid, a) \<in> set (plan_items plan)"
  shows "1 \<le> d \<and> d \<le> 6"
proof -
  from plan_items_mem [OF assms(2)] obtain nm dp where
    dp: "(nm, dp) \<in> set plan" "d = dp_day dp" "a \<in> set (dp_activities dp)" "a_topic_id a = Some tid"
    by blast
  from dp(1) generate_weekly_plan_days [OF assms(1)]
  have "(\<exists>day. dp = regular_day_plan db
            (all_topics_of db (get_subjects_for_exam db (exam_type prof))) strat prof day
          \<and> 1 \<le> day \<and> day \<le> 6)
        \<or> dp = sunday_plan (study_hours_per_day prof)"
    by auto
  then show ?thesis
  proof
    assume "\<exists>day. dp = regular_day_plan db
            (all_topics_of db (get_subjects_for_exam db (exam_type prof))) strat prof day
          \<and> 1 \<le> day \<and> day \<le> 6"
    with dp(2) show ?thesis by (auto simp: dp_day_regular)
  next
    assume "dp = sunday_plan (study_hours_per_day prof)"
    with dp(3,4) show ?thesis by (auto simp: sunday_plan_def)
  qed
qed

lemma insert_items_result:
  assumes "insert_items uuid4 k rid its rows = Inr rows'"
  shows "\<exists>new. rows' = rows @ new \<and> map ri_day_of_week new = map fst its
           \<and> (\<forall>i \<in> set new. ri_roadmap_id i = rid)"
  using assms
proof (induction its arbitrary: k rows)
  case Nil
  then show ?case by simp
next
  case (Cons it its)
  obtain day tid a where it: "it = (day, tid, a)" by (cases it) auto
  from Cons.prems it obtain pr where pr: "a_priority a = Some pr"
    and rec: "insert_items uuid4 (Suc k) rid its
        (rows @ [\<lparr> ri_id = uuid4 k, ri_roadmap_id = rid, ri_topic_id = tid,
                    ri_day_of_week = day, ri_study_hours = a_duration a,
                    ri_priority = priority_code pr, ri_status = ''pending'' \<rparr>]) = Inr rows'"
    by (auto split: option.splits if_splits)
  from Cons.IH [OF rec] obtain new where
    new: "rows' = (rows @ [\<lparr> ri_id = uuid4 k, ri_roadmap_id = rid, ri_topic_id = tid,
                    ri_day_of_week = day, ri_study_hours = a_duration a,
                    ri_priority = priority_code pr, ri_status = ''pending'' \<rparr>]) @ new"
      "map ri_day_of_week new = map fst its" "\<forall>i \<in> set new. ri_roadmap_id i = rid"
    by blast
  show ?case
    by (rule exI [where x = "\<lparr> ri_id = uuid4 k, ri_roadmap_id = rid, ri_topic_id = tid,
                    ri_day_of_week = day, ri_study_hours = a_duration a,
                    ri_priority = priority_code pr, ri_status = ''pending'' \<rparr> # new"])
       (use new it in simp)
qed

lemma save_roadmap_result:
  assumes "save_roadmap clk uuid4 db uid week yr plan = Inr (rid, db')"
  shows "\<exists>new. roadmap_items db' = roadmap_items db @ new
           \<and> map ri_day_of_week new = map fst (plan_items plan)
           \<and> (\<forall>i \<in> set new. ri_roadmap_id i = rid)"
  using assms
  by (auto simp: save_roadmap_def Let_def split: if_splits sum.splits dest!: insert_items_result)

lemma generate_weekly_roadmap_items:
  assumes "generate_weekly_roadmap clk uuid4 db uid week_offset = (res, db')"
  shows "\<exists>new. roadmap_items db' = roadmap_items db @ new
           \<and> (\<forall>i \<in> set new. 1 \<le> ri_day_of_week i \<and> ri_day_of_week i \<le> 6)"
proof (cases "db' = db")
  case True
  then show ?thesis by (intro exI [where x = "[]"]) simp
next
  case False
  with assms obtain prof strat plan week yr rid where
    plan: "generate_weekly_plan db strat prof = Inr plan"
    and save: "save_roadmap clk uuid4 db uid week yr plan = Inr (rid, db')"
    by (auto simp: generate_weekly_roadmap_def Let_def
        split: option.splits sum.splits prod.splits)
  from save_roadmap_result [OF save] obtain new where
    new: "roadmap_items db' = roadmap_items db @ new"
      "map ri_day_of_week new = map fst (plan_items plan)"
    by blast
  have "\<forall>i \<in> set new. 1 \<le> ri_day_of_week i \<and> ri_day_of_week i \<le> 6"
  proof
    fix i assume "i \<in> set new"
    then have "ri_day_of_week i \<in> set (map ri_day_of_week new)" by simp
    with new(2) have "ri_day_of_week i \<in> fst ` set (plan_items plan)" by simp
    then obtain tid a where "(ri_day_of_week i, tid, a) \<in> set (plan_items plan)" by force
    from generated_plan_item_days [OF plan this]
    show "1 \<le> ri_day_of_week i \<and> ri_day_of_week i \<le> 6" .
  qed
  with new(1) show ?thesis by blast
qed

lemma join_row_columns:
  assumes "row \<in> set (roadmap_join_rows db uid week yr)"
  shows "(row ! 9 = SqlNull \<or> (\<exists>s. row ! 9 = SqlText s))
       \<and> (row ! 10 = SqlNull \<or> (\<exists>i \<in> set (roadmap_items db). row ! 10 = SqlInt (ri_day_of_week i)))"
  using assms
  by (auto simp: roadmap_join_rows_def roadmap_cols_def item_cols_def Let_def nth_append
      split: if_splits)

lemma get_roadmap_day_column:
  assumes "get_roadmap clk db uid week_offset = Inr (Some rd)"
    and "it \<in> set (rd_items rd)"
  shows "i_day_of_week it \<noteq> SqlInt 7"
proof -
  from assms(1) obtain week yr first rest where
    rows: "roadmap_join_rows db uid week yr = first # rest"
    and rd: "rd_items rd = map item_of_result
           (filter (\<lambda>result. truthy (result ! 6)) (first # rest))"
    by (auto simp: get_roadmap_def split: option.splits prod.splits list.splits)
  from assms(2) rd have "it \<in> item_of_result `
      set (filter (\<lambda>result. truthy (result ! 6)) (first # rest))"
    by (simp only: set_map)
  then obtain row where "row \<in> set (filter (\<lambda>result. truthy (result ! 6)) (first # rest))"
    and it: "it = item_of_result row"
    by blast
  then have "row \<in> set (first # rest)"
    by (simp only: set_filter) blast
  with rows have row: "row \<in> set (roadmap_join_rows db uid week yr)"
    by simp
  from join_row_columns [OF row] it show ?thesis
    by (auto simp: item_of_result_def)
qed

text \<open>
  Claim C9: whatever \<^verbatim>\<open>generate_weekly_roadmap\<close> returns, the roadmap items it leaves in
  the database are the old ones followed by new ones whose \<^verbatim>\<open>day_of_week\<close> lies between
  1 and 6 (none when it raised or returned the error value): the two Sunday activities carry
  no \<^verbatim>\<open>topic_id\<close> and are not persisted. No item that \<^verbatim>\<open>get_roadmap\<close> returns has
  \<^verbatim>\<open>day_of_week\<close> 7; and when the items already stored lie in 1..6, no row fetched by its
  query has 7 in the \<^verbatim>\<open>day_of_week\<close> column either. (\<^verbatim>\<open>get_roadmap\<close> reads the fetched tuple
  one position early, the roadmaps table having seven columns: the value it returns under
  the key \<^verbatim>\<open>day_of_week\<close> is the item's topic id, as the witness shows.)
\<close>

theorem persisted_items_day_range:
  assumes "generate_weekly_roadmap clk uuid4 db uid week_offset = (res, db')"
  shows "(\<exists>new. roadmap_items db' = roadmap_items db @ new
            \<and> (\<forall>i \<in> set new. 1 \<le> ri_day_of_week i \<and> ri_day_of_week i \<le> 6))
       \<and> (\<forall>clk' uid' week_offset' rd.
             get_roadmap clk' db' uid' week_offset' = Inr (Some rd) \<longrightarrow>
             SqlInt 7 \<notin> i_day_of_week ` set (rd_items rd))
       \<and> ((\<forall>i \<in> set (roadmap_items db). 1 \<le> ri_day_of_week i \<and> ri_day_of_week i \<le> 6) \<longrightarrow>
            (\<forall>uid' week yr. \<forall>row \<in> set (roadmap_join_rows db' uid' week yr). row ! 10 \<noteq> SqlInt 7))"
proof (intro conjI)
  show items: "\<exists>new. roadmap_items db' = roadmap_items db @ new
            \<and> (\<forall>i \<in> set new. 1 \<le> ri_day_of_week i \<and> ri_day_of_week i \<le> 6)"
    by (rule generate_weekly_roadmap_items [OF assms])
  show "\<forall>clk' uid' week_offset' rd.
             get_roadmap clk' db' uid' week_offset' = Inr (Some rd) \<longrightarrow>
             SqlInt 7 \<notin> i_day_of_week ` set (rd_items rd)"
    using get_roadmap_day_column by fastforce
  show "(\<forall>i \<in> set (roadmap_items db). 1 \<le> ri_day_of_week i \<and> ri_day_of_week i \<le> 6) \<longrightarrow>
            (\<forall>uid' week yr. \<forall>row \<in> set (roadmap_join_rows db' uid' week yr). row ! 10 \<noteq> SqlInt 7)"
  proof (intro impI allI ballI)
    fix uid' week yr row
    assume inv: "\<forall>i \<in> set (roadmap_items db). 1 \<le> ri_day_of_week i \<and> ri_day_of_week i \<le> 6"
      and row: "row \<in> set (roadmap_join_rows db' uid' week yr)"
    from items inv have "\<forall>i \<in> set (roadmap_items db'). 1 \<le> ri_day_of_week i \<and> ri_day_of_week i \<le> 6"
      by auto
    with join_row_columns [OF row] show "row ! 10 \<noteq> SqlInt 7"
      by auto
  qed
qed

theorem persisted_items_day_range_witness:
  "map ri_day_of_week (roadmap_items (snd
       (generate_weekly_roadmap example_clock example_uuid4 example_db ''u1'' 0)))
     = [1, 1, 2, 2, 3, 3, 4, 4, 5, 5, 6, 6]
   \<and> map_sum id (map_option (map i_day_of_week \<circ> rd_items))
       (get_roadmap example_clock
          (snd (generate_weekly_roadmap example_clock example_uuid4 example_db ''u1'' 0)) ''u1'' 0)
     = Inr (Some (map SqlText
         [''chemistry_atomic_structure'', ''mathematics_calculus'',
          ''mathematics_calculus'', ''physics_mechanics'',
          ''physics_mechanics'', ''chemistry_atomic_structure'',
          ''chemistry_atomic_structure'', ''mathematics_calculus'',
          ''mathematics_calculus'', ''physics_mechanics'',
          ''physics_mechanics'', ''chemistry_atomic_structure'']))"
proof -
  have run: "generate_weekly_roadmap example_clock example_uuid4 example_db ''u1'' 0
      = (fst (generate_weekly_roadmap example_clock example_uuid4 example_db ''u1'' 0),
         snd (generate_weekly_roadmap example_clock example_uuid4 example_db ''u1'' 0))"
    by simp
  note days = persisted_items_day_range [OF run]
  have c: "map ri_day_of_week (roadmap_items (snd
       (generate_weekly_roadmap example_clock example_uuid4 example_db ''u1'' 0)))
     = [1, 1, 2, 2, 3, 3, 4, 4, 5, 5, 6, 6]
   \<and> map_sum id (map_option (map i_day_of_week \<circ> rd_items))
       (get_roadmap example_clock
          (snd (generate_weekly_roadmap example_clock example_uuid4 example_db ''u1'' 0)) ''u1'' 0)
     = Inr (Some (map SqlText
         [''chemistry_atomic_structure'', ''mathematics_calculus'',
          ''mathematics_calculus'', ''physics_mechanics'',
          ''physics_mechanics'', ''chemistry_atomic_structure'',
          ''chemistry_atomic_structure'', ''mathematics_calculus'',
          ''mathematics_calculus'', ''physics_mechanics'',
          ''physics_mechanics'', ''chemistry_atomic_structure'']))"
    by code_simp
  from days c show ?thesis by fast
qed

section \<open>Adaptation directives\<close>

text \<open>Float arithmetic at the thresholds: the literals 0.7 and 0.2; the mean of the
  masteries 0.25, 0.85 and 1.0, which Python computes as 0.7000000000000001; the average of
  the weekly rates of 2 of 3 and 1 of 3 completed items, which Python computes as
  49.99999999999999.\<close>

lemma fl_round_examples:
  "fl_round (7/10) = 3152519739159347 / 2 ^ 52
   \<and> fl_round (2/10) = 3602879701896397 / 2 ^ 54
   \<and> float_mean [25/100, 85/100, 1] = 6305039478318695 / 2 ^ 53
   \<and> float_mean [25/100, 85/100, 1] > fl_round (7/10)
   \<and> float_mean [fl_round (fl_round (2/3) * 100), fl_round (fl_round (1/3) * 100)]
       = 7036874417766399 / 2 ^ 47
   \<and> float_mean [fl_round (fl_round (2/3) * 100), fl_round (fl_round (1/3) * 100)] < 50"
  by code_simp

text \<open>
  Claim C8: \<^verbatim>\<open>adapt_roadmap_based_on_performance\<close> emits a \<^verbatim>\<open>reduce_workload\<close> directive
  whenever the average completion rate over the last 2 weeks is below 50, hence a user with
  a completion rate of 40% in both recent weeks gets that directive. The code does not do
  this. The query of \<^verbatim>\<open>get_roadmap_analytics\<close>, commented \<^verbatim>\<open>Get recent roadmaps\<close>, selects
  the user's roadmaps by \<^verbatim>\<open>r.week_number >= current week - weeks_back\<close> alone: week numbers
  are compared without the year and there is no upper bound, so a roadmap of an earlier
  year whose week number is large enough is averaged with the recent weeks.

  In week 3 of 2025, for the user \<open>u1\<close>:
  \<^item> in \<open>lagging_db\<close> (2 of 5 items completed in each of weeks 1 and 2 of 2025) the tracked
    weeks are these two, the average is 40 and the one directive is \<^verbatim>\<open>reduce_workload\<close>;
  \<^item> in \<open>stale_db\<close> (the same, and a completed roadmap of week 40 of 2024) the tracked weeks
    are three with rates 40, 40 and 100, the average is 60 and no directive is emitted,
    although the completion rate of both recent weeks is 40.
\<close>

theorem adaptation_counts_stale_weeks:
  "map fst (weekly_stats (get_roadmap_analytics example_clock lagging_db ''u1'' 2))
     = [(2025, 2), (2025, 1)]
   \<and> avg_completion_rate (get_roadmap_analytics example_clock lagging_db ''u1'' 2) = 40
   \<and> map ad_type (adaptations (adapt_roadmap_based_on_performance example_clock lagging_db ''u1''))
       = [''reduce_workload'']
   \<and> map (\<lambda>w. (fst w, stats_get (snd w) ''completed'', stats_get (snd w) ''total'',
                 stats_get (snd w) ''completion_rate''))
       (weekly_stats (get_roadmap_analytics example_clock stale_db ''u1'' 2))
     = [((2025, 2), 2, 5, 40), ((2025, 1), 2, 5, 40), ((2024, 40), 5, 5, 100)]
   \<and> avg_completion_rate (get_roadmap_analytics example_clock stale_db ''u1'' 2) = 60
   \<and> adaptations (adapt_roadmap_based_on_performance example_clock stale_db ''u1'') = []
   \<and> recommended_changes (adapt_roadmap_based_on_performance example_clock stale_db ''u1'')
       = False"
  by code_simp

end
